theory Spec2Isabelle
  imports Complex_Main "HOL-Library.Product_Lexorder" "HOL-Library.Multiset"
begin

section \<open>numpy float64 values\<close>

text \<open>
  The measurements, quantiles and indices of both scripts are numpy \<open>float64\<close> values.
  They are modelled as the real numbers extended by the two infinities and one NaN.
  Arithmetic on finite values is exact: rounding and overflow are not modelled, and zero
  carries no sign (it behaves as \<open>+0.0\<close>). The special values follow IEEE 754 as numpy
  applies it: no operation raises, a division by zero gives an infinity or NaN.
\<close>

datatype npfloat = Fin real | PInf | NInf | NaN

fun isnan :: "npfloat \<Rightarrow> bool" where
  "isnan NaN = True"
| "isnan _ = False"

fun is_inf :: "npfloat \<Rightarrow> bool" where
  "is_inf PInf = True"
| "is_inf NInf = True"
| "is_inf _ = False"

fun fneg :: "npfloat \<Rightarrow> npfloat" where
  "fneg (Fin a) = Fin (- a)"
| "fneg PInf = NInf"
| "fneg NInf = PInf"
| "fneg NaN = NaN"

fun fabs :: "npfloat \<Rightarrow> npfloat" where
  "fabs (Fin a) = Fin \<bar>a\<bar>"
| "fabs PInf = PInf"
| "fabs NInf = PInf"
| "fabs NaN = NaN"

fun fadd :: "npfloat \<Rightarrow> npfloat \<Rightarrow> npfloat" where
  "fadd (Fin a) (Fin b) = Fin (a + b)"
| "fadd NaN _ = NaN"
| "fadd _ NaN = NaN"
| "fadd PInf NInf = NaN"
| "fadd NInf PInf = NaN"
| "fadd PInf _ = PInf"
| "fadd _ PInf = PInf"
| "fadd NInf _ = NInf"
| "fadd _ NInf = NInf"

definition fsub :: "npfloat \<Rightarrow> npfloat \<Rightarrow> npfloat" where
  "fsub a b = fadd a (fneg b)"

fun fmul :: "npfloat \<Rightarrow> npfloat \<Rightarrow> npfloat" where
  "fmul (Fin a) (Fin b) = Fin (a * b)"
| "fmul NaN _ = NaN"
| "fmul _ NaN = NaN"
| "fmul PInf (Fin b) = (if b = 0 then NaN else if 0 < b then PInf else NInf)"
| "fmul NInf (Fin b) = (if b = 0 then NaN else if 0 < b then NInf else PInf)"
| "fmul (Fin a) PInf = (if a = 0 then NaN else if 0 < a then PInf else NInf)"
| "fmul (Fin a) NInf = (if a = 0 then NaN else if 0 < a then NInf else PInf)"
| "fmul PInf PInf = PInf"
| "fmul PInf NInf = NInf"
| "fmul NInf PInf = NInf"
| "fmul NInf NInf = PInf"

fun fdiv :: "npfloat \<Rightarrow> npfloat \<Rightarrow> npfloat" where
  "fdiv (Fin a) (Fin b) =
     (if b = 0 then (if a = 0 then NaN else if 0 < a then PInf else NInf)
      else Fin (a / b))"
| "fdiv NaN _ = NaN"
| "fdiv _ NaN = NaN"
| "fdiv (Fin a) PInf = Fin 0"
| "fdiv (Fin a) NInf = Fin 0"
| "fdiv PInf (Fin b) = (if 0 \<le> b then PInf else NInf)"
| "fdiv NInf (Fin b) = (if 0 \<le> b then NInf else PInf)"
| "fdiv PInf PInf = NaN"
| "fdiv PInf NInf = NaN"
| "fdiv NInf PInf = NaN"
| "fdiv NInf NInf = NaN"

fun fsqrt :: "npfloat \<Rightarrow> npfloat" where
  "fsqrt (Fin a) = (if a < 0 then NaN else Fin (sqrt a))"
| "fsqrt PInf = PInf"
| "fsqrt NInf = NaN"
| "fsqrt NaN = NaN"


text \<open>
  Truth value of a float in a Python condition (\<open>x if hist_sigma_ref else 0\<close>): every
  value but zero is true, NaN and the infinities included.
\<close>

definition truthy :: "npfloat \<Rightarrow> bool" where
  "truthy x = (x \<noteq> Fin 0)"


section \<open>The numpy functions the scripts call\<close>

text \<open>
  The order in which numpy sorts: \<open>-inf\<close>, the finite values, \<open>+inf\<close>, NaN last.
\<close>

fun sortkey :: "npfloat \<Rightarrow> nat \<times> real" where
  "sortkey NInf = (0, 0)"
| "sortkey (Fin a) = (1, a)"
| "sortkey PInf = (2, 0)"
| "sortkey NaN = (3, 0)"

definition np_sort :: "npfloat list \<Rightarrow> npfloat list" where
  "np_sort xs = sort_key sortkey xs"

definition np_abs :: "npfloat list \<Rightarrow> npfloat list" where
  "np_abs xs = map fabs xs"

text \<open>\<open>data[~np.isnan(data)]\<close>, and pandas' \<open>dropna()\<close> on a column of floats.\<close>

definition remove_nan :: "npfloat list \<Rightarrow> npfloat list" where
  "remove_nan xs = filter (\<lambda>x. \<not> isnan x) xs"

text \<open>
  numpy's linear interpolation between two order statistics: \<open>a + (b - a) * t\<close>, computed
  from the upper end as \<open>b - (b - a) * (1 - t)\<close> when \<open>t >= 0.5\<close>.
\<close>

definition lerp :: "npfloat \<Rightarrow> npfloat \<Rightarrow> real \<Rightarrow> npfloat" where
  "lerp a b t =
     (if 1 / 2 \<le> t then fsub b (fmul (fsub b a) (Fin (1 - t)))
      else fadd a (fmul (fsub b a) (Fin t)))"

text \<open>
  \<open>np.quantile(xs, q)\<close> with the default method (linear) on a non-empty array without NaN:
  the virtual index is \<open>q * (n - 1)\<close>; at or above the last index both neighbours are the
  last element.
\<close>

definition np_quantile :: "npfloat list \<Rightarrow> real \<Rightarrow> npfloat" where
  "np_quantile xs q =
     (let ys = np_sort xs;
          n = length ys;
          h = q * (real n - 1);
          lo = nat \<lfloor>h\<rfloor>
      in if real n - 1 \<le> h then lerp (last ys) (last ys) (h + 1)
         else lerp (ys ! lo) (ys ! (lo + 1)) (h - real lo))"

text \<open>\<open>np.nanquantile\<close>: NaN entries are removed first; an all-NaN (or empty) array gives NaN.\<close>

definition nanquantile :: "npfloat list \<Rightarrow> real \<Rightarrow> npfloat" where
  "nanquantile xs q =
     (let ys = remove_nan xs in if ys = [] then NaN else np_quantile ys q)"

text \<open>
  \<open>np.median\<close>: NaN as soon as one entry is NaN (and on an empty array); otherwise the
  middle order statistic, or the mean of the two middle ones.
\<close>

definition np_median :: "npfloat list \<Rightarrow> npfloat" where
  "np_median xs =
     (let ys = np_sort xs; n = length ys
      in if n = 0 \<or> (\<exists>x \<in> set xs. isnan x) then NaN
         else if odd n then ys ! (n div 2)
         else fdiv (fadd (ys ! (n div 2 - 1)) (ys ! (n div 2))) (Fin 2))"

definition nanmedian :: "npfloat list \<Rightarrow> npfloat" where
  "nanmedian xs = (let ys = remove_nan xs in if ys = [] then NaN else np_median ys)"

definition fsum :: "npfloat list \<Rightarrow> npfloat" where
  "fsum xs = foldl fadd (Fin 0) xs"

text \<open>\<open>np.std(xs, ddof=1)\<close>: the square root of the squared deviations from the mean, summed
  and divided by \<open>max (n - 1) 0\<close>.\<close>

definition np_std_ddof1 :: "npfloat list \<Rightarrow> npfloat" where
  "np_std_ddof1 xs =
     (let n = length xs;
          mean = fdiv (fsum xs) (Fin (real n));
          sq = map (\<lambda>x. fmul (fsub x mean) (fsub x mean)) xs
      in fsqrt (fdiv (fsum sq) (Fin (real (n - 1)))))"

text \<open>
  \<open>a.reshape(-1, g)\<close> on a one-dimensional array: the rows are the consecutive runs of
  \<open>g\<close> elements, their number is inferred from the length. numpy raises when the length
  is no multiple of \<open>g\<close>; both scripts cut the array to \<open>num_groups * group_size\<close>
  elements first (lemma \<open>reshape_arg_multiple\<close>).
\<close>

fun rows :: "nat \<Rightarrow> nat \<Rightarrow> 'a list \<Rightarrow> 'a list list" where
  "rows 0 g xs = []"
| "rows (Suc k) g xs = take g xs # rows k g (drop g xs)"

definition reshape_rows :: "nat \<Rightarrow> 'a list \<Rightarrow> 'a list list" where
  "reshape_rows g xs = rows (length xs div g) g xs"

text \<open>A slice \<open>xs[a:b]\<close> with indices that are not negative.\<close>

definition py_slice :: "nat \<Rightarrow> nat \<Rightarrow> 'a list \<Rightarrow> 'a list" where
  "py_slice a b xs = take (b - a) (drop a xs)"

text \<open>\<open>range(start, stop, step)\<close> for a positive step.\<close>

definition py_range :: "nat \<Rightarrow> nat \<Rightarrow> nat \<Rightarrow> nat list" where
  "py_range start stop step =
     map (\<lambda>k. start + k * step) [0 ..< (stop - start + step - 1) div step]"


section \<open>The distribution fitter\<close>

text \<open>
  \<open>COMMON_DISTRIBUTIONS\<close>, the candidate families given to the Fitter.
\<close>

datatype family = Norm | Lognorm | Gamma | Beta | Weibull_min | Pareto | T | Expon

fun family_name :: "family \<Rightarrow> string" where
  "family_name Norm = ''norm''"
| "family_name Lognorm = ''lognorm''"
| "family_name Gamma = ''gamma''"
| "family_name Beta = ''beta''"
| "family_name Weibull_min = ''weibull_min''"
| "family_name Pareto = ''pareto''"
| "family_name T = ''t''"
| "family_name Expon = ''expon''"

datatype py_error = KeyError | FitterError

text \<open>
  The packages \<open>fitter\<close> and \<open>scipy.stats\<close> are libraries outside the repository. What
  the scripts do with them (build a Fitter on the data, fit, take the family with the least
  sum of squared errors and freeze it with its fitted parameters) is a parameter \<open>F\<close> of
  the model: it maps the data to the winning family and its frozen distribution, or raises.
  Of the frozen distribution only the quantile function \<open>ppf\<close> is used.
\<close>

type_synonym dist = "real \<Rightarrow> npfloat"

type_synonym fitter = "npfloat list \<Rightarrow> py_error + family \<times> dist"


section \<open>The robust estimator\<close>

text \<open>
  The dictionary \<open>get_robust_sigma_and_mu\<close> returns. A key that a returned dictionary
  does not have is \<open>None\<close> here; \<open>dist_obj\<close> is present with the Python value \<open>None\<close>
  in the empirical case, hence the two options.
\<close>

record estimate =
  sigma_equiv :: npfloat
  median :: "npfloat option"
  lsl :: "npfloat option"
  usl :: "npfloat option"
  dist_obj :: "dist option option"
  dist_name :: "string option"
  data_used :: "npfloat list option"

text \<open>\<open>get_robust_sigma_and_mu\<close> of \<open>test55.py\<close>.\<close>

definition test55_get_robust_sigma_and_mu ::
  "fitter \<Rightarrow> npfloat list \<Rightarrow> bool \<Rightarrow> bool \<Rightarrow> py_error + estimate" where
  "test55_get_robust_sigma_and_mu F data0 fit_distribution use_abs_values =
     (let data = (if use_abs_values then np_abs data0 else data0);
          data = remove_nan data
      in if fit_distribution \<and> 10 < length data then
           (case F data of
              Inl e \<Rightarrow> Inl e
            | Inr (best_name, frozen) \<Rightarrow>
                (let lsl' = frozen 0.00135; usl' = frozen 0.99865; median' = frozen 0.5
                 in Inr \<lparr>sigma_equiv = fdiv (fsub usl' lsl') (Fin 6),
                         median = Some median',
                         lsl = Some lsl', usl = Some usl',
                         dist_obj = Some (Some frozen), dist_name = Some (family_name best_name),
                         data_used = Some data\<rparr>))
         else if length data = 0 then
           Inr \<lparr>sigma_equiv = NaN, median = None, lsl = None, usl = None,
                dist_obj = None, dist_name = None, data_used = None\<rparr>
         else
           (let lsl' = nanquantile data 0.00135; usl' = nanquantile data 0.99865
            in Inr \<lparr>sigma_equiv = fdiv (fsub usl' lsl') (Fin 6),
                    median = Some (nanmedian data),
                    lsl = Some lsl', usl = Some usl',
                    dist_obj = Some None, dist_name = Some ''empirical'',
                    data_used = Some data\<rparr>))"

text \<open>\<open>get_robust_sigma_and_mu\<close> of \<open>histogramm.py\<close>.\<close>

definition histogramm_get_robust_sigma_and_mu ::
  "fitter \<Rightarrow> npfloat list \<Rightarrow> bool \<Rightarrow> bool \<Rightarrow> py_error + estimate" where
  "histogramm_get_robust_sigma_and_mu F data0 fit_distribution use_abs_values =
     (let data = (if use_abs_values then np_abs data0 else data0)
      in if fit_distribution then
           (case F data of
              Inl e \<Rightarrow> Inl e
            | Inr (best_name, frozen) \<Rightarrow>
                (let lsl' = frozen 0.00135; usl' = frozen 0.99865; median' = frozen 0.5
                 in Inr \<lparr>sigma_equiv = fdiv (fsub usl' lsl') (Fin 6),
                         median = Some median',
                         lsl = Some lsl', usl = Some usl',
                         dist_obj = Some (Some frozen), dist_name = Some (family_name best_name),
                         data_used = Some data\<rparr>))
         else if length data = 0 then
           Inr \<lparr>sigma_equiv = NaN, median = Some NaN, lsl = Some NaN, usl = Some NaN,
                dist_obj = None, dist_name = None, data_used = Some data\<rparr>
         else
           (let lsl' = nanquantile data 0.00135; usl' = nanquantile data 0.99865;
                median' = nanmedian data
            in Inr \<lparr>sigma_equiv = fdiv (fsub usl' lsl') (Fin 6),
                    median = Some median',
                    lsl = Some lsl', usl = Some usl',
                    dist_obj = Some None, dist_name = Some ''empirical'',
                    data_used = Some data\<rparr>))"


section \<open>Snapshot: the stability indices of one interval\<close>

text \<open>
  Both snapshot functions compute \<open>sigma_stab\<close> and \<open>mu_stab\<close> and then draw them. The
  model returns the two indices as they are handed to the drawing code; the drawing itself
  is not modelled. The argument \<open>df_value\<close> is the value column of the data frame.
\<close>

record stab =
  sigma_stab :: npfloat
  mu_stab :: npfloat

text \<open>\<open>plot_histogramm\<close> of \<open>test55.py\<close>; \<open>None\<close> is the early return on fewer than five
  values.\<close>

definition test55_plot_histogramm ::
  "fitter \<Rightarrow> npfloat list \<Rightarrow> npfloat \<Rightarrow> bool \<Rightarrow> py_error + stab option" where
  "test55_plot_histogramm F df_value hist_sigma_ref use_abs =
     (let raw_data = remove_nan df_value
      in if length raw_data < 5 then Inr None
         else
           (case test55_get_robust_sigma_and_mu F raw_data True use_abs of
              Inl e \<Rightarrow> Inl e
            | Inr res \<Rightarrow>
                (case data_used res of
                   None \<Rightarrow> Inl KeyError
                 | Some plot_data \<Rightarrow>
                     (let sigma_stab' =
                            (if truthy hist_sigma_ref then fdiv (sigma_equiv res) hist_sigma_ref
                             else Fin 0);
                          group_size = 5;
                          num_groups = length plot_data div group_size;
                          mu_stab' =
                            (if 1 < num_groups then
                               (let grps = reshape_rows group_size
                                             (py_slice 0 (num_groups * group_size) plot_data);
                                    sigma_mu = np_std_ddof1 (map np_median grps)
                                in if truthy hist_sigma_ref then fdiv sigma_mu hist_sigma_ref
                                   else Fin 0)
                             else Fin 0)
                      in Inr (Some \<lparr>sigma_stab = sigma_stab', mu_stab = mu_stab'\<rparr>)))))"

text \<open>\<open>plot_snapshot_analysis\<close> of \<open>histogramm.py\<close>.\<close>

definition histogramm_plot_snapshot_analysis ::
  "fitter \<Rightarrow> npfloat list \<Rightarrow> npfloat \<Rightarrow> bool \<Rightarrow> py_error + stab" where
  "histogramm_plot_snapshot_analysis F df_values hist_sigma_ref use_abs =
     (let raw_data = remove_nan df_values
      in case histogramm_get_robust_sigma_and_mu F raw_data True use_abs of
           Inl e \<Rightarrow> Inl e
         | Inr res \<Rightarrow>
             (case data_used res of
                None \<Rightarrow> Inl KeyError
              | Some plot_data \<Rightarrow>
                  (let sigma_stab' = fdiv (sigma_equiv res) hist_sigma_ref;
                       group_size = 5;
                       num_groups = length plot_data div group_size;
                       mu_stab' =
                         (if 1 < num_groups then
                            (let grps = reshape_rows group_size
                                          (py_slice 0 (num_groups * group_size) plot_data);
                                 sigma_mu = np_std_ddof1 (map np_median grps)
                             in fdiv sigma_mu hist_sigma_ref)
                          else Fin 0)
                   in Inr \<lparr>sigma_stab = sigma_stab', mu_stab = mu_stab'\<rparr>)))"


section \<open>Timeline: the rolling window\<close>

text \<open>
  The data frame of the timeline functions is a list of rows (date, value). Dates are
  integers (any linear order would do). \<open>df.sort_values('date')\<close> orders the rows by date;
  rows with equal dates are kept in their order here, which pandas does not promise.
\<close>

type_synonym date = int

definition sort_values_date :: "(date \<times> npfloat) list \<Rightarrow> (date \<times> npfloat) list" where
  "sort_values_date df = sort_key fst df"

text \<open>The three lists the loop fills and the charts are drawn from.\<close>

record trend =
  sigma_stab_list :: "npfloat list"
  mu_stab_list :: "npfloat list"
  dates :: "date list"

text \<open>
  One pass through the body of the loop of \<open>plot_timeline_analysis\<close> in \<open>test55.py\<close>,
  at the index \<open>i\<close>: \<open>None\<close> is the \<open>continue\<close>, otherwise the date and the two
  indices that the pass appends. \<open>index\<close> is the sorted date column, \<open>vals\<close> the value
  column in the same order.
\<close>

definition test55_timeline_body ::
  "fitter \<Rightarrow> date list \<Rightarrow> npfloat list \<Rightarrow> npfloat \<Rightarrow> nat \<Rightarrow> bool \<Rightarrow> nat
     \<Rightarrow> py_error + (date \<times> npfloat \<times> npfloat) option" where
  "test55_timeline_body F index vals hist_sigma_ref window_size use_abs i =
     (let window_data = py_slice (i - window_size) i vals;
          current_date = index ! i
      in case test55_get_robust_sigma_and_mu F window_data False use_abs of
           Inl e \<Rightarrow> Inl e
         | Inr res \<Rightarrow>
             (case data_used res of
                None \<Rightarrow> Inl KeyError
              | Some plot_data \<Rightarrow>
                  if isnan (sigma_equiv res) then Inr None
                  else
                    (let s_stab =
                           (if truthy hist_sigma_ref then fdiv (sigma_equiv res) hist_sigma_ref
                            else Fin 0);
                         group_size = 5;
                         n_groups = length plot_data div group_size;
                         m_stab =
                           (if 2 < n_groups then
                              (let grps = reshape_rows group_size
                                            (py_slice 0 (n_groups * group_size) plot_data);
                                   sigma_mu = np_std_ddof1 (map np_median grps)
                               in if truthy hist_sigma_ref then fdiv sigma_mu hist_sigma_ref
                                  else Fin 0)
                            else Fin 0)
                     in Inr (Some (current_date, s_stab, m_stab)))))"

text \<open>The loop itself, over the indices that \<open>range(window_size, len(vals), step)\<close> yields:
  an exception ends it, a \<open>continue\<close> leaves the three lists as they are.\<close>

fun test55_timeline_loop ::
  "fitter \<Rightarrow> date list \<Rightarrow> npfloat list \<Rightarrow> npfloat \<Rightarrow> nat \<Rightarrow> bool \<Rightarrow> nat list \<Rightarrow> trend
     \<Rightarrow> py_error + trend" where
  "test55_timeline_loop F index vals hist_sigma_ref window_size use_abs [] acc = Inr acc"
| "test55_timeline_loop F index vals hist_sigma_ref window_size use_abs (i # rest) acc =
     (case test55_timeline_body F index vals hist_sigma_ref window_size use_abs i of
        Inl e \<Rightarrow> Inl e
      | Inr None \<Rightarrow>
          test55_timeline_loop F index vals hist_sigma_ref window_size use_abs rest acc
      | Inr (Some (current_date, s_stab, m_stab)) \<Rightarrow>
          test55_timeline_loop F index vals hist_sigma_ref window_size use_abs rest
            \<lparr>sigma_stab_list = sigma_stab_list acc @ [s_stab],
             mu_stab_list = mu_stab_list acc @ [m_stab],
             dates = dates acc @ [current_date]\<rparr>)"

text \<open>\<open>plot_timeline_analysis\<close> of \<open>test55.py\<close>, up to the three lists.\<close>

definition test55_plot_timeline_analysis ::
  "fitter \<Rightarrow> (date \<times> npfloat) list \<Rightarrow> npfloat \<Rightarrow> nat \<Rightarrow> bool \<Rightarrow> py_error + trend" where
  "test55_plot_timeline_analysis F df hist_sigma_ref window_size use_abs =
     (let df_sorted = sort_values_date df;
          index = map fst df_sorted;
          vals = map snd df_sorted;
          step = 5
      in test55_timeline_loop F index vals hist_sigma_ref window_size use_abs
           (py_range window_size (length vals) step)
           \<lparr>sigma_stab_list = [], mu_stab_list = [], dates = []\<rparr>)"

text \<open>The body of the loop of \<open>plot_timeline_analysis\<close> in \<open>histogramm.py\<close>.\<close>

definition histogramm_timeline_body ::
  "fitter \<Rightarrow> date list \<Rightarrow> npfloat list \<Rightarrow> npfloat \<Rightarrow> nat \<Rightarrow> bool \<Rightarrow> nat
     \<Rightarrow> py_error + (date \<times> npfloat \<times> npfloat) option" where
  "histogramm_timeline_body F index vals hist_sigma_ref window_size use_abs i =
     (let window_data = py_slice (i - window_size) i vals;
          current_date = index ! i
      in case histogramm_get_robust_sigma_and_mu F window_data False use_abs of
           Inl e \<Rightarrow> Inl e
         | Inr res \<Rightarrow>
             (case data_used res of
                None \<Rightarrow> Inl KeyError
              | Some plot_data \<Rightarrow>
                  if isnan (sigma_equiv res) then Inr None
                  else
                    (let s_stab = fdiv (sigma_equiv res) hist_sigma_ref;
                         group_size = 5;
                         n_groups = length plot_data div group_size;
                         m_stab =
                           (if 2 < n_groups then
                              (let grps = reshape_rows group_size
                                            (py_slice 0 (n_groups * group_size) plot_data);
                                   sigma_mu = np_std_ddof1 (map np_median grps)
                               in fdiv sigma_mu hist_sigma_ref)
                            else Fin 0)
                     in Inr (Some (current_date, s_stab, m_stab)))))"

fun histogramm_timeline_loop ::
  "fitter \<Rightarrow> date list \<Rightarrow> npfloat list \<Rightarrow> npfloat \<Rightarrow> nat \<Rightarrow> bool \<Rightarrow> nat list \<Rightarrow> trend
     \<Rightarrow> py_error + trend" where
  "histogramm_timeline_loop F index vals hist_sigma_ref window_size use_abs [] acc = Inr acc"
| "histogramm_timeline_loop F index vals hist_sigma_ref window_size use_abs (i # rest) acc =
     (case histogramm_timeline_body F index vals hist_sigma_ref window_size use_abs i of
        Inl e \<Rightarrow> Inl e
      | Inr None \<Rightarrow>
          histogramm_timeline_loop F index vals hist_sigma_ref window_size use_abs rest acc
      | Inr (Some (current_date, s_stab, m_stab)) \<Rightarrow>
          histogramm_timeline_loop F index vals hist_sigma_ref window_size use_abs rest
            \<lparr>sigma_stab_list = sigma_stab_list acc @ [s_stab],
             mu_stab_list = mu_stab_list acc @ [m_stab],
             dates = dates acc @ [current_date]\<rparr>)"

text \<open>\<open>plot_timeline_analysis\<close> of \<open>histogramm.py\<close>, up to the three lists.\<close>

definition histogramm_plot_timeline_analysis ::
  "fitter \<Rightarrow> (date \<times> npfloat) list \<Rightarrow> npfloat \<Rightarrow> nat \<Rightarrow> bool \<Rightarrow> py_error + trend" where
  "histogramm_plot_timeline_analysis F df hist_sigma_ref window_size use_abs =
     (let df_sorted = sort_values_date df;
          index = map fst df_sorted;
          vals = map snd df_sorted;
          step = 5
      in histogramm_timeline_loop F index vals hist_sigma_ref window_size use_abs
           (py_range window_size (length vals) step)
           \<lparr>sigma_stab_list = [], mu_stab_list = [], dates = []\<rparr>)"


section \<open>The specification's own words\<close>

text \<open>
  The subgroups as the specification describes them: the consecutive, non-overlapping
  chunks of \<open>g\<close> elements in the sample's order, a remainder that fills no chunk left out.
\<close>

definition spec_subgroups :: "nat \<Rightarrow> 'a list \<Rightarrow> 'a list list" where
  "spec_subgroups g xs = map (\<lambda>j. take g (drop (j * g) xs)) [0 ..< length xs div g]"

text \<open>The median of a list of reals, and the Bessel-corrected standard deviation.\<close>

definition real_median :: "real list \<Rightarrow> real" where
  "real_median xs =
     (let ys = sort xs; n = length ys
      in if odd n then ys ! (n div 2) else (ys ! (n div 2 - 1) + ys ! (n div 2)) / 2)"

definition real_mean :: "real list \<Rightarrow> real" where
  "real_mean xs = sum_list xs / real (length xs)"

definition bessel_sd :: "real list \<Rightarrow> real" where
  "bessel_sd xs =
     sqrt (sum_list (map (\<lambda>x. (x - real_mean xs) ^ 2) xs) / (real (length xs) - 1))"

text \<open>
  The trend builder as the specification describes it: the current index starts at
  \<open>window_size\<close> and advances by \<open>step\<close> while it is before the end of the series; the
  window of an index is the \<open>window_size\<close> measurements just before it.
\<close>

definition spec_indices :: "nat \<Rightarrow> nat \<Rightarrow> nat \<Rightarrow> nat list" where
  "spec_indices window_size n step =
     filter (\<lambda>i. (i - window_size) mod step = 0) [window_size ..< n]"

definition spec_window :: "'a list \<Rightarrow> nat \<Rightarrow> nat \<Rightarrow> 'a list" where
  "spec_window vals window_size i = map (\<lambda>j. vals ! j) [i - window_size ..< i]"

text \<open>
  The empirical quantile as the specification describes it, on a list of reals: linear
  interpolation between the two order statistics around the position \<open>q * (n - 1)\<close>.
\<close>

definition real_quantile :: "real list \<Rightarrow> real \<Rightarrow> real" where
  "real_quantile xs q =
     (let ys = sort xs;
          n = length ys;
          h = q * (real n - 1);
          lo = nat \<lfloor>h\<rfloor>
      in if real n - 1 \<le> h then last ys
         else ys ! lo + (ys ! (lo + 1) - ys ! lo) * (h - real lo))"





section \<open>Two fitters for the examples\<close>

text \<open>A fitter on which every family fails.\<close>

definition failing_fitter :: fitter where
  "failing_fitter xs = Inl FitterError"

text \<open>A fitter whose winner is always the exponential family with location 0 and scale 1,
  whose quantile function is \<open>-ln (1 - p)\<close>.\<close>

definition expon_fitter :: fitter where
  "expon_fitter xs = Inr (Expon, \<lambda>p. Fin (- ln (1 - p)))"


section \<open>Basic facts about the numpy functions\<close>

lemma isnan_fabs [simp]: "isnan (fabs x) = isnan x"
  by (cases x) simp_all

lemma remove_nan_Nil [simp]: "remove_nan [] = []"
  by (simp add: remove_nan_def)

lemma np_abs_Nil [simp]: "np_abs [] = []"
  by (simp add: np_abs_def)

lemma np_abs_Nil_iff [simp]: "np_abs xs = [] \<longleftrightarrow> xs = []"
  by (simp add: np_abs_def)

lemma length_np_abs [simp]: "length (np_abs xs) = length xs"
  by (simp add: np_abs_def)

lemma remove_nan_np_abs: "remove_nan (np_abs xs) = np_abs (remove_nan xs)"
  by (induction xs) (simp_all add: remove_nan_def np_abs_def)

lemma remove_nan_idem [simp]: "remove_nan (remove_nan xs) = remove_nan xs"
  by (simp add: remove_nan_def)

lemma nanquantile_remove_nan [simp]: "nanquantile (remove_nan xs) q = nanquantile xs q"
  by (simp add: nanquantile_def)

lemma nanmedian_remove_nan [simp]: "nanmedian (remove_nan xs) = nanmedian xs"
  by (simp add: nanmedian_def)

lemma family_name_not_empirical: "family_name f \<noteq> ''empirical''"
  by (cases f) simp_all


section \<open>The estimator: fallback, empty samples, missing values\<close>

text \<open>
  Claim C2, as amended. In \<open>test55.py\<close> a sample with at most 10 values that are not NaN
  is estimated in exact mode exactly as in fast mode, and the call returns: the fitter is
  asked only for more than 10 values. (\<open>histogramm.py\<close> has no such threshold, see the
  counterexample.)
\<close>

theorem C2_test55_fallback:
  "length (remove_nan data) \<le> 10 \<Longrightarrow>
     test55_get_robust_sigma_and_mu F data True use_abs
       = test55_get_robust_sigma_and_mu F data False use_abs
     \<and> (\<exists>res. test55_get_robust_sigma_and_mu F data True use_abs = Inr res)"
  by (simp add: test55_get_robust_sigma_and_mu_def Let_def remove_nan_np_abs)

theorem C2_test55_fallback_witness:
  "length (remove_nan [Fin 1, Fin 2, NaN, Fin 4, Fin 5]) \<le> 10
   \<and> test55_get_robust_sigma_and_mu failing_fitter [Fin 1, Fin 2, NaN, Fin 4, Fin 5] True False
       = test55_get_robust_sigma_and_mu failing_fitter [Fin 1, Fin 2, NaN, Fin 4, Fin 5] False False
   \<and> (\<exists>res. test55_get_robust_sigma_and_mu failing_fitter [Fin 1, Fin 2, NaN, Fin 4, Fin 5]
                True False = Inr res)"
proof -
  have h: "length (remove_nan [Fin 1, Fin 2, NaN, Fin 4, Fin 5]) \<le> 10"
    by (simp add: remove_nan_def)
  from C2_test55_fallback [OF h, of failing_fitter False] h show ?thesis
    by blast
qed

text \<open>
  The claim C2 as stated fails on \<open>histogramm.py\<close>: its exact mode runs the fitter on a
  sample of five values too, and whatever the fitter does there (raise, or return a
  family), the result is not the fast-mode result, whose \<open>dist_name\<close> is \<open>empirical\<close>.
\<close>

theorem C2_histogramm_counterexample:
  "\<not> (\<exists>F. histogramm_get_robust_sigma_and_mu F [Fin 1, Fin 2, Fin 3, Fin 4, Fin 5] True False
          = histogramm_get_robust_sigma_and_mu F [Fin 1, Fin 2, Fin 3, Fin 4, Fin 5] False False)"
  by (auto simp add: histogramm_get_robust_sigma_and_mu_def Let_def family_name_not_empirical
      split: sum.splits)

text \<open>
  Claim C3, as amended. On a sample without any value that is not NaN, \<open>test55.py\<close>
  returns in both modes, without raising, a result whose \<open>sigma_equiv\<close> is NaN; and the
  fast mode of \<open>histogramm.py\<close> returns, without raising, \<open>sigma_equiv\<close>, \<open>median\<close>,
  \<open>lsl\<close> and \<open>usl\<close> all NaN, with the sample as \<open>data_used\<close>. Its \<open>dist_name\<close> is
  \<open>empirical\<close> unless the sample has no element at all, where the key is absent.
\<close>

theorem C3_empty_sample:
  "remove_nan data = [] \<Longrightarrow>
     (\<exists>res. test55_get_robust_sigma_and_mu F data fit_distribution use_abs = Inr res
            \<and> sigma_equiv res = NaN)
     \<and> (\<exists>res. histogramm_get_robust_sigma_and_mu F data False use_abs = Inr res
            \<and> sigma_equiv res = NaN \<and> median res = Some NaN
            \<and> lsl res = Some NaN \<and> usl res = Some NaN
            \<and> data_used res = Some (if use_abs then np_abs data else data)
            \<and> dist_name res = (if data = [] then None else Some ''empirical''))"
  by (auto simp add: test55_get_robust_sigma_and_mu_def histogramm_get_robust_sigma_and_mu_def
      Let_def remove_nan_np_abs nanquantile_def nanmedian_def fsub_def)

theorem C3_empty_sample_witness:
  "remove_nan [NaN, NaN] = []
   \<and> (\<exists>res. test55_get_robust_sigma_and_mu failing_fitter [NaN, NaN] True False = Inr res
            \<and> sigma_equiv res = NaN)
   \<and> (\<exists>res. histogramm_get_robust_sigma_and_mu failing_fitter [NaN, NaN] False False = Inr res
            \<and> sigma_equiv res = NaN \<and> median res = Some NaN
            \<and> lsl res = Some NaN \<and> usl res = Some NaN
            \<and> data_used res = Some [NaN, NaN]
            \<and> dist_name res = Some ''empirical'')"
  using C3_empty_sample [of "[NaN, NaN]" failing_fitter True False]
  by (simp add: remove_nan_def)

text \<open>
  The claim C3 as stated fails on \<open>test55.py\<close>: on the empty sample its result has
  \<open>sigma_equiv\<close> only, so \<open>median\<close>, \<open>lsl\<close> and \<open>usl\<close> are not NaN, they are absent.
\<close>

theorem C3_test55_counterexample:
  "\<not> (\<exists>res. test55_get_robust_sigma_and_mu failing_fitter [] False False = Inr res
          \<and> median res = Some NaN \<and> lsl res = Some NaN \<and> usl res = Some NaN)"
  by (simp add: test55_get_robust_sigma_and_mu_def)

text \<open>
  Claim C4, as amended. \<open>test55.py\<close> drops the NaN values before it estimates, in both
  modes: its result on a sample is its result on the sample without the NaN values, and
  the \<open>data_used\<close> it returns holds no NaN. \<open>histogramm.py\<close> does not drop them; in fast
  mode its \<open>sigma_equiv\<close>, \<open>median\<close>, \<open>lsl\<close> and \<open>usl\<close> are those of the sample without
  the NaN values (the NaN-ignoring quantile and median), and nothing more is said of it.
\<close>

theorem C4_nan_dropped:
  "test55_get_robust_sigma_and_mu F data fit_distribution use_abs
     = test55_get_robust_sigma_and_mu F (remove_nan data) fit_distribution use_abs
   \<and> (\<forall>res d. test55_get_robust_sigma_and_mu F data fit_distribution use_abs = Inr res
          \<and> data_used res = Some d \<longrightarrow> (\<forall>x \<in> set d. \<not> isnan x))
   \<and> (\<exists>r r'. histogramm_get_robust_sigma_and_mu F data False use_abs = Inr r
          \<and> histogramm_get_robust_sigma_and_mu F (remove_nan data) False use_abs = Inr r'
          \<and> sigma_equiv r = sigma_equiv r' \<and> median r = median r'
          \<and> lsl r = lsl r' \<and> usl r = usl r')"
proof (intro conjI)
  show "test55_get_robust_sigma_and_mu F data fit_distribution use_abs
     = test55_get_robust_sigma_and_mu F (remove_nan data) fit_distribution use_abs"
    by (cases use_abs) (simp_all add: test55_get_robust_sigma_and_mu_def remove_nan_np_abs)
  show "\<forall>res d. test55_get_robust_sigma_and_mu F data fit_distribution use_abs = Inr res
          \<and> data_used res = Some d \<longrightarrow> (\<forall>x \<in> set d. \<not> isnan x)"
    by (auto simp add: test55_get_robust_sigma_and_mu_def Let_def remove_nan_def
        split: if_splits sum.splits)
  show "\<exists>r r'. histogramm_get_robust_sigma_and_mu F data False use_abs = Inr r
          \<and> histogramm_get_robust_sigma_and_mu F (remove_nan data) False use_abs = Inr r'
          \<and> sigma_equiv r = sigma_equiv r' \<and> median r = median r'
          \<and> lsl r = lsl r' \<and> usl r = usl r'"
    by (cases use_abs)
      (auto simp add: histogramm_get_robust_sigma_and_mu_def Let_def remove_nan_np_abs[symmetric]
        nanquantile_def nanmedian_def fsub_def)
qed

theorem C4_nan_dropped_witness:
  "test55_get_robust_sigma_and_mu failing_fitter [Fin 1, NaN, Fin (- 3)] False True
     = test55_get_robust_sigma_and_mu failing_fitter [Fin 1, Fin (- 3)] False True
   \<and> (\<exists>res. test55_get_robust_sigma_and_mu failing_fitter [Fin 1, NaN, Fin (- 3)] False True
              = Inr res \<and> data_used res = Some [Fin 1, Fin 3])"
proof -
  have r: "remove_nan [Fin 1, NaN, Fin (- 3)] = [Fin 1, Fin (- 3)]"
    by (simp add: remove_nan_def)
  have d: "\<exists>res. test55_get_robust_sigma_and_mu failing_fitter [Fin 1, Fin (- 3)] False True
              = Inr res \<and> data_used res = Some [Fin 1, Fin 3]"
    by (simp add: test55_get_robust_sigma_and_mu_def remove_nan_def np_abs_def Let_def)
  from C4_nan_dropped [of failing_fitter "[Fin 1, NaN, Fin (- 3)]" False True]
  have "test55_get_robust_sigma_and_mu failing_fitter [Fin 1, NaN, Fin (- 3)] False True
     = test55_get_robust_sigma_and_mu failing_fitter [Fin 1, Fin (- 3)] False True"
    unfolding r by blast
  with d show ?thesis by simp
qed

text \<open>
  The claim C4 as stated fails on \<open>histogramm.py\<close>: the result on a sample with a NaN is
  not the result on the sample without it, since \<open>data_used\<close> keeps the NaN.
\<close>

theorem C4_histogramm_counterexample:
  "histogramm_get_robust_sigma_and_mu failing_fitter [Fin 1, NaN] False False
     \<noteq> histogramm_get_robust_sigma_and_mu failing_fitter (remove_nan [Fin 1, NaN]) False False"
  by (simp add: histogramm_get_robust_sigma_and_mu_def Let_def remove_nan_def)


section \<open>Ranges, slices and subgroups\<close>

lemma ceil_div_less_iff:
  fixes k D step :: nat
  assumes "0 < step"
  shows "k < (D + step - 1) div step \<longleftrightarrow> k * step < D"
proof
  assume "k < (D + step - 1) div step"
  then have "Suc k \<le> (D + step - 1) div step" by simp
  then have "Suc k * step \<le> (D + step - 1) div step * step" by (rule mult_le_mono1)
  also have "\<dots> \<le> D + step - 1" by (rule div_times_less_eq_dividend)
  finally show "k * step < D" using assms by simp
next
  assume "k * step < D"
  then have "Suc k * step \<le> D + step - 1" using assms by simp
  then have "(Suc k * step) div step \<le> (D + step - 1) div step" by (rule div_le_mono)
  then show "k < (D + step - 1) div step" using assms by simp
qed

lemma set_py_range:
  assumes "0 < step"
  shows "set (py_range ws n step) = {i. ws \<le> i \<and> i < n \<and> (i - ws) mod step = 0}"
proof (intro set_eqI iffI)
  fix i assume "i \<in> set (py_range ws n step)"
  then obtain k where k: "k < (n - ws + step - 1) div step" "i = ws + k * step"
    by (auto simp: py_range_def)
  from k(1) ceil_div_less_iff [OF assms, of k "n - ws"] have "k * step < n - ws" by simp
  then show "i \<in> {i. ws \<le> i \<and> i < n \<and> (i - ws) mod step = 0}"
    using k(2) by simp
next
  fix i assume "i \<in> {i. ws \<le> i \<and> i < n \<and> (i - ws) mod step = 0}"
  then have i: "ws \<le> i" "i < n" "(i - ws) mod step = 0" by auto
  define k where "k = (i - ws) div step"
  have "(i - ws) div step * step = i - ws"
    using i(3) by (metis div_mult_mod_eq add.right_neutral)
  then have ik: "i = ws + k * step" using i(1) by (simp add: k_def)
  then have "k * step < n - ws" using i by simp
  with ceil_div_less_iff [OF assms, of k "n - ws"] have "k < (n - ws + step - 1) div step" by simp
  then show "i \<in> set (py_range ws n step)"
    using ik by (auto simp: py_range_def)
qed

lemma sorted_py_range: "0 < step \<Longrightarrow> sorted_wrt (<) (py_range ws n step)"
  by (auto simp: py_range_def sorted_wrt_map sorted_wrt_iff_nth_less)

lemma py_range_eq_spec_indices:
  assumes "0 < step"
  shows "py_range ws n step = spec_indices ws n step"
proof (rule sorted_distinct_set_unique)
  show "sorted (py_range ws n step)" "distinct (py_range ws n step)"
    using sorted_py_range [OF assms, of ws n] by (simp_all add: strict_sorted_iff)
  have "sorted_wrt (<) (spec_indices ws n step)"
    unfolding spec_indices_def by (rule sorted_wrt_filter) (simp add: strict_sorted_iff)
  then show "sorted (spec_indices ws n step)" "distinct (spec_indices ws n step)"
    by (simp_all add: strict_sorted_iff)
  show "set (py_range ws n step) = set (spec_indices ws n step)"
    using assms by (auto simp: set_py_range spec_indices_def)
qed

lemma py_slice_eq_spec_window:
  assumes "ws \<le> i" "i \<le> length vals"
  shows "py_slice (i - ws) i vals = spec_window vals ws i"
  using assms by (auto simp: py_slice_def spec_window_def intro!: nth_equalityI)

lemma rows_eq: "rows k g xs = map (\<lambda>j. take g (drop (j * g) xs)) [0 ..< k]"
proof (induction k arbitrary: xs)
  case 0
  then show ?case by simp
next
  case (Suc k)
  have "map (\<lambda>j. take g (drop (j * g) xs)) [0 ..< Suc k]
      = take g xs # map (\<lambda>j. take g (drop (Suc j * g) xs)) [0 ..< k]"
    by (simp only: upt_conv_Cons [of 0 "Suc k"] map_Suc_upt [symmetric]) (simp add: comp_def)
  also have "map (\<lambda>j. take g (drop (Suc j * g) xs)) [0 ..< k]
      = map (\<lambda>j. take g (drop (j * g) (drop g xs))) [0 ..< k]"
    by (simp add: add.commute)
  finally show ?case using Suc.IH [of "drop g xs"] by simp
qed

lemma reshape_arg_multiple: "length (py_slice 0 (length xs div g * g) xs) mod g = 0"
  by (simp add: py_slice_def)

lemma reshape_rows_eq_spec_subgroups:
  assumes "0 < g"
  shows "reshape_rows g (py_slice 0 (length xs div g * g) xs) = spec_subgroups g xs"
proof -
  let ?k = "length xs div g"
  have len: "length (take (?k * g) xs) = ?k * g"
    by (simp add: div_times_less_eq_dividend)
  have "reshape_rows g (py_slice 0 (?k * g) xs)
      = map (\<lambda>j. take g (drop (j * g) (take (?k * g) xs))) [0 ..< ?k]"
    using assms by (simp add: reshape_rows_def py_slice_def rows_eq len del: length_take)
  also have "\<dots> = map (\<lambda>j. take g (drop (j * g) xs)) [0 ..< ?k]"
  proof (rule map_cong [OF refl])
    fix j assume "j \<in> set [0 ..< ?k]"
    then have "Suc j \<le> ?k" by simp
    then have "Suc j * g \<le> ?k * g" by (rule mult_le_mono1)
    then have "g \<le> ?k * g - j * g" by simp
    then show "take g (drop (j * g) (take (?k * g) xs)) = take g (drop (j * g) xs)"
      by (simp add: drop_take min_def)
  qed
  finally show ?thesis by (simp add: spec_subgroups_def)
qed

section \<open>The snapshot and timeline functions in closed form\<close>

lemma fdiv_NaN_right [simp]: "fdiv x NaN = NaN"
  by (cases x) simp_all

lemma fdiv_zero_not_Fin: "fdiv x (Fin 0) \<noteq> Fin r"
  by (cases x) simp_all

lemma truthy_simps [simp]: "truthy (Fin 0) = False" "truthy NaN = True"
  by (simp_all add: truthy_def)

lemma test55_data_used:
  "test55_get_robust_sigma_and_mu F data fd ua = Inr res \<Longrightarrow>
     data_used res = (if remove_nan data = [] then None
                      else Some (remove_nan (if ua then np_abs data else data)))"
  by (cases ua)
    (auto simp add: test55_get_robust_sigma_and_mu_def Let_def remove_nan_np_abs
      split: if_splits sum.splits)

lemma histogramm_data_used:
  "histogramm_get_robust_sigma_and_mu F data fd ua = Inr res \<Longrightarrow>
     data_used res = Some (if ua then np_abs data else data)"
  by (auto simp add: histogramm_get_robust_sigma_and_mu_def Let_def
      split: if_splits sum.splits)

lemma length_remove_nan_abs:
  "length (remove_nan (if ua then np_abs xs else xs)) = length (remove_nan xs)"
  by (simp add: remove_nan_np_abs)

text \<open>The snapshot functions in closed form.\<close>

lemma test55_plot_histogramm_early:
  "length (remove_nan df) < 5 \<Longrightarrow> test55_plot_histogramm F df ref ua = Inr None"
  by (simp add: test55_plot_histogramm_def)

lemma test55_plot_histogramm_raise:
  "5 \<le> length (remove_nan df) \<Longrightarrow>
   test55_get_robust_sigma_and_mu F (remove_nan df) True ua = Inl e \<Longrightarrow>
   test55_plot_histogramm F df ref ua = Inl e"
  by (simp add: test55_plot_histogramm_def)

lemma test55_plot_histogramm_char:
  assumes "5 \<le> length (remove_nan df)"
    and "test55_get_robust_sigma_and_mu F (remove_nan df) True ua = Inr res"
  shows "test55_plot_histogramm F df ref ua =
     Inr (Some \<lparr>sigma_stab = (if truthy ref then fdiv (sigma_equiv res) ref else Fin 0),
                mu_stab =
                  (if length (remove_nan df) div 5 \<le> 1 then Fin 0
                   else if truthy ref
                     then fdiv (np_std_ddof1 (map np_median
                            (spec_subgroups 5 (remove_nan (if ua then np_abs df else df))))) ref
                     else Fin 0)\<rparr>)"
proof -
  let ?d = "remove_nan (if ua then np_abs df else df)"
  have ne: "remove_nan df \<noteq> []" using assms(1) by auto
  have du: "data_used res = Some ?d"
    using test55_data_used [OF assms(2)] ne by (simp add: remove_nan_np_abs)
  have len: "length ?d = length (remove_nan df)" by (rule length_remove_nan_abs)
  note rs = reshape_rows_eq_spec_subgroups [of 5 "np_abs (remove_nan df)", simplified]
    reshape_rows_eq_spec_subgroups [of 5 "remove_nan df", simplified]
  show ?thesis
    using assms du
    by (cases ua)
      (simp_all add: test55_plot_histogramm_def Let_def rs remove_nan_np_abs not_less)
qed

lemma histogramm_plot_snapshot_raise:
  "histogramm_get_robust_sigma_and_mu F (remove_nan df) True ua = Inl e \<Longrightarrow>
   histogramm_plot_snapshot_analysis F df ref ua = Inl e"
  by (simp add: histogramm_plot_snapshot_analysis_def)

lemma histogramm_plot_snapshot_char:
  assumes "histogramm_get_robust_sigma_and_mu F (remove_nan df) True ua = Inr res"
  shows "histogramm_plot_snapshot_analysis F df ref ua =
     Inr \<lparr>sigma_stab = fdiv (sigma_equiv res) ref,
          mu_stab =
            (if length (remove_nan df) div 5 \<le> 1 then Fin 0
             else fdiv (np_std_ddof1 (map np_median
                    (spec_subgroups 5 (if ua then np_abs (remove_nan df) else remove_nan df)))) ref)\<rparr>"
proof -
  let ?d = "if ua then np_abs (remove_nan df) else remove_nan df"
  have du: "data_used res = Some ?d"
    using histogramm_data_used [OF assms] by simp
  have len: "length ?d = length (remove_nan df)" by simp
  note rs = reshape_rows_eq_spec_subgroups [of 5 "np_abs (remove_nan df)", simplified]
    reshape_rows_eq_spec_subgroups [of 5 "remove_nan df", simplified]
  show ?thesis
    using assms du
    by (cases ua)
      (simp_all add: histogramm_plot_snapshot_analysis_def Let_def rs not_less)
qed

lemma test55_fast_total:
  "\<exists>res. test55_get_robust_sigma_and_mu F w False ua = Inr res"
  by (simp add: test55_get_robust_sigma_and_mu_def Let_def)

lemma histogramm_fast_total:
  "\<exists>res. histogramm_get_robust_sigma_and_mu F w False ua = Inr res"
  by (simp add: histogramm_get_robust_sigma_and_mu_def Let_def)

lemma test55_timeline_body_char:
  assumes "test55_get_robust_sigma_and_mu F (py_slice (i - ws) i vals) False ua = Inr res"
  shows "test55_timeline_body F index vals ref ws ua i =
     (if remove_nan (py_slice (i - ws) i vals) = [] then Inl KeyError
      else if isnan (sigma_equiv res) then Inr None
      else Inr (Some (index ! i,
             (if truthy ref then fdiv (sigma_equiv res) ref else Fin 0),
             (if length (remove_nan (py_slice (i - ws) i vals)) div 5 \<le> 2 then Fin 0
              else if truthy ref
                then fdiv (np_std_ddof1 (map np_median (spec_subgroups 5
                       (remove_nan (if ua then np_abs (py_slice (i - ws) i vals)
                                    else py_slice (i - ws) i vals))))) ref
                else Fin 0))))"
proof -
  let ?w = "py_slice (i - ws) i vals"
  note du = test55_data_used [OF assms]
  note rs = reshape_rows_eq_spec_subgroups [of 5 "np_abs (remove_nan ?w)", simplified]
    reshape_rows_eq_spec_subgroups [of 5 "remove_nan ?w", simplified]
  show ?thesis
    using assms du
    by (cases ua)
      (simp_all add: test55_timeline_body_def Let_def rs remove_nan_np_abs not_less)
qed

lemma histogramm_timeline_body_char:
  assumes "histogramm_get_robust_sigma_and_mu F (py_slice (i - ws) i vals) False ua = Inr res"
  shows "histogramm_timeline_body F index vals ref ws ua i =
     (if isnan (sigma_equiv res) then Inr None
      else Inr (Some (index ! i,
             fdiv (sigma_equiv res) ref,
             (if length (py_slice (i - ws) i vals) div 5 \<le> 2 then Fin 0
              else fdiv (np_std_ddof1 (map np_median (spec_subgroups 5
                       (if ua then np_abs (py_slice (i - ws) i vals)
                        else py_slice (i - ws) i vals)))) ref))))"
proof -
  let ?w = "py_slice (i - ws) i vals"
  note du = histogramm_data_used [OF assms]
  note rs = reshape_rows_eq_spec_subgroups [of 5 "np_abs ?w", simplified]
    reshape_rows_eq_spec_subgroups [of 5 "?w", simplified]
  show ?thesis
    using assms du
    by (cases ua)
      (simp_all add: histogramm_timeline_body_def Let_def rs not_less)
qed

lemma histogramm_timeline_body_total:
  "\<exists>p. histogramm_timeline_body F index vals ref ws ua i = Inr p"
proof -
  obtain res where "histogramm_get_robust_sigma_and_mu F (py_slice (i - ws) i vals) False ua = Inr res"
    using histogramm_fast_total by blast
  then show ?thesis by (simp add: histogramm_timeline_body_char)
qed



text \<open>The loops: the three lists collect what the passes yield, in order; an exception in
  one pass ends the loop with an exception.\<close>

lemma histogramm_timeline_loop_char:
  assumes "\<forall>i \<in> set is. histogramm_timeline_body F index vals ref ws ua i = Inr (p i)"
  shows "histogramm_timeline_loop F index vals ref ws ua is acc =
     Inr \<lparr>sigma_stab_list = sigma_stab_list acc @ map (fst \<circ> snd) (List.map_filter p is),
          mu_stab_list = mu_stab_list acc @ map (snd \<circ> snd) (List.map_filter p is),
          dates = dates acc @ map fst (List.map_filter p is)\<rparr>"
  using assms
proof (induction "is" arbitrary: acc)
  case Nil
  then show ?case by (simp add: List.map_filter_simps)
next
  case (Cons i rest)
  then show ?case
    by (cases "p i") (auto simp add: List.map_filter_simps)
qed

lemma test55_timeline_loop_char:
  assumes "\<forall>i \<in> set is. test55_timeline_body F index vals ref ws ua i = Inr (p i)"
  shows "test55_timeline_loop F index vals ref ws ua is acc =
     Inr \<lparr>sigma_stab_list = sigma_stab_list acc @ map (fst \<circ> snd) (List.map_filter p is),
          mu_stab_list = mu_stab_list acc @ map (snd \<circ> snd) (List.map_filter p is),
          dates = dates acc @ map fst (List.map_filter p is)\<rparr>"
  using assms
proof (induction "is" arbitrary: acc)
  case Nil
  then show ?case by (simp add: List.map_filter_simps)
next
  case (Cons i rest)
  then show ?case
    by (cases "p i") (auto simp add: List.map_filter_simps)
qed

lemma test55_timeline_loop_raise:
  assumes "i \<in> set is" "test55_timeline_body F index vals ref ws ua i = Inl e"
  shows "\<exists>e'. test55_timeline_loop F index vals ref ws ua is acc = Inl e'"
  using assms
proof (induction "is" arbitrary: acc)
  case Nil
  then show ?case by simp
next
  case (Cons j rest)
  show ?case
  proof (cases "test55_timeline_body F index vals ref ws ua j")
    case (Inl e')
    then show ?thesis by simp
  next
    case (Inr q)
    with Cons.prems have "i \<in> set rest" by auto
    with Cons.IH Cons.prems(2) Inr show ?thesis
      by (cases q) auto
  qed
qed


section \<open>The subgroup threshold\<close>


lemma test55_plot_histogramm_Inl:
  "test55_plot_histogramm F df ref ua = Inl e \<Longrightarrow>
     test55_get_robust_sigma_and_mu F (remove_nan df) True ua = Inl e"
proof (cases "test55_get_robust_sigma_and_mu F (remove_nan df) True ua")
  case (Inl e')
  assume "test55_plot_histogramm F df ref ua = Inl e"
  with Inl show ?thesis
    by (simp add: test55_plot_histogramm_def Let_def split: if_splits)
next
  case (Inr res)
  assume a: "test55_plot_histogramm F df ref ua = Inl e"
  show ?thesis
  proof (cases "5 \<le> length (remove_nan df)")
    case True
    from test55_plot_histogramm_char [OF True Inr, of ref] a show ?thesis by simp
  next
    case False
    with a show ?thesis by (simp add: test55_plot_histogramm_def Let_def)
  qed
qed

lemma histogramm_plot_snapshot_Inl:
  "histogramm_plot_snapshot_analysis F df ref ua = Inl e \<Longrightarrow>
     histogramm_get_robust_sigma_and_mu F (remove_nan df) True ua = Inl e"
proof (cases "histogramm_get_robust_sigma_and_mu F (remove_nan df) True ua")
  case (Inl e')
  assume "histogramm_plot_snapshot_analysis F df ref ua = Inl e"
  with Inl show ?thesis
    by (simp add: histogramm_plot_snapshot_analysis_def)
next
  case (Inr res)
  assume a: "histogramm_plot_snapshot_analysis F df ref ua = Inl e"
  from histogramm_plot_snapshot_char [OF Inr, of ref] a show ?thesis by simp
qed

lemma test55_plot_histogramm_Some:
  assumes "test55_plot_histogramm F df ref ua = Inr (Some st)"
  obtains res where "5 \<le> length (remove_nan df)"
    and "test55_get_robust_sigma_and_mu F (remove_nan df) True ua = Inr res"
proof -
  have 5: "5 \<le> length (remove_nan df)"
    using assms by (auto simp add: test55_plot_histogramm_def Let_def split: if_splits)
  moreover have "\<exists>res. test55_get_robust_sigma_and_mu F (remove_nan df) True ua = Inr res"
  proof (cases "test55_get_robust_sigma_and_mu F (remove_nan df) True ua")
    case (Inl e)
    from test55_plot_histogramm_raise [OF 5 Inl, of ref] assms show ?thesis by simp
  qed simp
  ultimately show ?thesis using that by blast
qed

lemma histogramm_plot_snapshot_Inr:
  assumes "histogramm_plot_snapshot_analysis F df ref ua = Inr st"
  obtains res where "histogramm_get_robust_sigma_and_mu F (remove_nan df) True ua = Inr res"
proof (cases "histogramm_get_robust_sigma_and_mu F (remove_nan df) True ua")
  case (Inl e)
  from histogramm_plot_snapshot_raise [OF Inl, of ref] assms show ?thesis by simp
next
  case (Inr res)
  then show ?thesis using that by blast
qed

text \<open>
  Claim C8. With \<open>k\<close> the number of complete subgroups of five in the sample used,
  \<open>mu_stab\<close> is the number 0 when \<open>k \<le> 1\<close> in the snapshot functions and when
  \<open>k \<le> 2\<close> in the passes of the timeline loops, in both scripts.
\<close>

theorem C8_mu_stab_threshold:
  "(\<forall>st. test55_plot_histogramm F df ref ua = Inr (Some st) \<longrightarrow>
         length (remove_nan df) div 5 \<le> 1 \<longrightarrow> mu_stab st = Fin 0)
   \<and> (\<forall>st. histogramm_plot_snapshot_analysis F df ref ua = Inr st \<longrightarrow>
         length (remove_nan df) div 5 \<le> 1 \<longrightarrow> mu_stab st = Fin 0)
   \<and> (\<forall>d s m. test55_timeline_body F index vals ref ws ua i = Inr (Some (d, s, m)) \<longrightarrow>
         length (remove_nan (py_slice (i - ws) i vals)) div 5 \<le> 2 \<longrightarrow> m = Fin 0)
   \<and> (\<forall>d s m. histogramm_timeline_body F index vals ref ws ua i = Inr (Some (d, s, m)) \<longrightarrow>
         length (py_slice (i - ws) i vals) div 5 \<le> 2 \<longrightarrow> m = Fin 0)"
proof (intro conjI allI impI)
  fix st
  assume a: "test55_plot_histogramm F df ref ua = Inr (Some st)"
    and k: "length (remove_nan df) div 5 \<le> 1"
  from a obtain res where "5 \<le> length (remove_nan df)"
    and "test55_get_robust_sigma_and_mu F (remove_nan df) True ua = Inr res"
    by (rule test55_plot_histogramm_Some)
  from test55_plot_histogramm_char [OF this, of ref] a k show "mu_stab st = Fin 0"
    by auto
next
  fix st
  assume a: "histogramm_plot_snapshot_analysis F df ref ua = Inr st"
    and k: "length (remove_nan df) div 5 \<le> 1"
  from a obtain res where "histogramm_get_robust_sigma_and_mu F (remove_nan df) True ua = Inr res"
    by (rule histogramm_plot_snapshot_Inr)
  from histogramm_plot_snapshot_char [OF this, of ref] a k show "mu_stab st = Fin 0"
    by auto
next
  fix d s m
  assume a: "test55_timeline_body F index vals ref ws ua i = Inr (Some (d, s, m))"
    and k: "length (remove_nan (py_slice (i - ws) i vals)) div 5 \<le> 2"
  obtain res where "test55_get_robust_sigma_and_mu F (py_slice (i - ws) i vals) False ua = Inr res"
    using test55_fast_total by blast
  from test55_timeline_body_char [OF this, of index ref] a k show "m = Fin 0"
    by (auto split: if_splits)
next
  fix d s m
  assume a: "histogramm_timeline_body F index vals ref ws ua i = Inr (Some (d, s, m))"
    and k: "length (py_slice (i - ws) i vals) div 5 \<le> 2"
  obtain res where "histogramm_get_robust_sigma_and_mu F (py_slice (i - ws) i vals) False ua = Inr res"
    using histogramm_fast_total by blast
  from histogramm_timeline_body_char [OF this, of index ref] a k show "m = Fin 0"
    by (auto split: if_splits)
qed

lemma ex_test55_snapshot:
  "\<exists>st. test55_plot_histogramm failing_fitter [Fin 1, Fin 2, NaN, Fin 3, Fin 4, Fin 5] (Fin 2) False
      = Inr (Some st)"
  by (simp add: test55_plot_histogramm_def test55_get_robust_sigma_and_mu_def remove_nan_def
      Let_def)

lemma ex_histogramm_snapshot:
  "\<exists>st. histogramm_plot_snapshot_analysis expon_fitter [Fin 1, Fin 2, NaN, Fin 3, Fin 4, Fin 5] (Fin 2) False
      = Inr st"
  by (simp add: histogramm_plot_snapshot_analysis_def histogramm_get_robust_sigma_and_mu_def
      remove_nan_def expon_fitter_def Let_def)

lemma ex_test55_body:
  "\<exists>d s m. test55_timeline_body failing_fitter [10, 20, 30] [Fin 1, Fin 2, Fin 3] (Fin 2) 2 False 2
      = Inr (Some (d, s, m))"
  by (simp add: test55_timeline_body_def test55_get_robust_sigma_and_mu_def remove_nan_def
      py_slice_def nanquantile_def np_quantile_def np_sort_def lerp_def fsub_def Let_def)

lemma ex_histogramm_body:
  "\<exists>d s m. histogramm_timeline_body failing_fitter [10, 20, 30] [Fin 1, Fin 2, Fin 3] (Fin 2) 2 False 2
      = Inr (Some (d, s, m))"
  by (simp add: histogramm_timeline_body_def histogramm_get_robust_sigma_and_mu_def remove_nan_def
      py_slice_def nanquantile_def np_quantile_def np_sort_def lerp_def fsub_def Let_def)

theorem C8_mu_stab_threshold_witness:
  "(\<exists>st. test55_plot_histogramm failing_fitter [Fin 1, Fin 2, NaN, Fin 3, Fin 4, Fin 5] (Fin 2) False
          = Inr (Some st) \<and> mu_stab st = Fin 0)
   \<and> (\<exists>st. histogramm_plot_snapshot_analysis expon_fitter [Fin 1, Fin 2, NaN, Fin 3, Fin 4, Fin 5]
            (Fin 2) False = Inr st \<and> mu_stab st = Fin 0)
   \<and> (\<exists>d s. test55_timeline_body failing_fitter [10, 20, 30] [Fin 1, Fin 2, Fin 3] (Fin 2) 2 False 2
            = Inr (Some (d, s, Fin 0)))
   \<and> (\<exists>d s. histogramm_timeline_body failing_fitter [10, 20, 30] [Fin 1, Fin 2, Fin 3] (Fin 2) 2
            False 2 = Inr (Some (d, s, Fin 0)))"
proof -
  note inst = C8_mu_stab_threshold [of failing_fitter "[Fin 1, Fin 2, NaN, Fin 3, Fin 4, Fin 5]"
      "Fin 2" False "[10, 20, 30]" "[Fin 1, Fin 2, Fin 3]" 2 2]
    C8_mu_stab_threshold [of expon_fitter "[Fin 1, Fin 2, NaN, Fin 3, Fin 4, Fin 5]"
      "Fin 2" False "[10, 20, 30]" "[Fin 1, Fin 2, Fin 3]" 2 2]
  have k1: "length (remove_nan [Fin 1, Fin 2, NaN, Fin 3, Fin 4, Fin 5]) div 5 \<le> 1"
    by (simp add: remove_nan_def)
  have k2: "length (remove_nan (py_slice (2 - 2) 2 [Fin 1, Fin 2, Fin 3])) div 5 \<le> 2"
    "length (py_slice (2 - 2) 2 [Fin 1, Fin 2, Fin 3]) div 5 \<le> 2"
    by (simp_all add: remove_nan_def py_slice_def)
  show ?thesis
    using inst k1 k2 ex_test55_snapshot ex_histogramm_snapshot ex_test55_body ex_histogramm_body
    by (metis (no_types, opaque_lifting))
qed

section \<open>A reference sigma that is zero or NaN\<close>

text \<open>
  Claim C1, as amended. With a reference sigma of zero, \<open>plot_histogramm\<close> of
  \<open>test55.py\<close> sets both indices to the number 0 (its guard \<open>if hist_sigma_ref else 0\<close>),
  while \<open>plot_snapshot_analysis\<close> of \<open>histogramm.py\<close> divides by it: \<open>sigma_stab\<close> is
  then an infinity or NaN, never a finite number, and so is \<open>mu_stab\<close> unless there are
  fewer than two subgroups, where it is 0. With a reference sigma of NaN, \<open>sigma_stab\<close> is
  NaN in both scripts, and \<open>mu_stab\<close> is NaN unless there are fewer than two subgroups,
  where it is 0. Whatever the reference, an exception of a snapshot function is an
  exception of the estimator: computing the indices raises nothing.
\<close>

theorem C1_reference_zero_or_nan:
  "(\<forall>st. test55_plot_histogramm F df (Fin 0) ua = Inr (Some st) \<longrightarrow>
        sigma_stab st = Fin 0 \<and> mu_stab st = Fin 0)
   \<and> (\<forall>st. test55_plot_histogramm F df NaN ua = Inr (Some st) \<longrightarrow>
        sigma_stab st = NaN
        \<and> mu_stab st = (if length (remove_nan df) div 5 \<le> 1 then Fin 0 else NaN))
   \<and> (\<forall>st. histogramm_plot_snapshot_analysis F df (Fin 0) ua = Inr st \<longrightarrow>
        (\<forall>r. sigma_stab st \<noteq> Fin r)
        \<and> (if length (remove_nan df) div 5 \<le> 1 then mu_stab st = Fin 0
            else (\<forall>r. mu_stab st \<noteq> Fin r)))
   \<and> (\<forall>st. histogramm_plot_snapshot_analysis F df NaN ua = Inr st \<longrightarrow>
        sigma_stab st = NaN
        \<and> mu_stab st = (if length (remove_nan df) div 5 \<le> 1 then Fin 0 else NaN))
   \<and> (\<forall>ref e. test55_plot_histogramm F df ref ua = Inl e \<longrightarrow>
        test55_get_robust_sigma_and_mu F (remove_nan df) True ua = Inl e)
   \<and> (\<forall>ref e. histogramm_plot_snapshot_analysis F df ref ua = Inl e \<longrightarrow>
        histogramm_get_robust_sigma_and_mu F (remove_nan df) True ua = Inl e)"
proof (intro conjI allI impI)
  fix st assume a: "test55_plot_histogramm F df (Fin 0) ua = Inr (Some st)"
  then obtain res where "5 \<le> length (remove_nan df)"
    and "test55_get_robust_sigma_and_mu F (remove_nan df) True ua = Inr res"
    by (rule test55_plot_histogramm_Some)
  from test55_plot_histogramm_char [OF this, of "Fin 0"] a
  show "sigma_stab st = Fin 0" "mu_stab st = Fin 0" by auto
next
  fix st assume a: "test55_plot_histogramm F df NaN ua = Inr (Some st)"
  then obtain res where "5 \<le> length (remove_nan df)"
    and "test55_get_robust_sigma_and_mu F (remove_nan df) True ua = Inr res"
    by (rule test55_plot_histogramm_Some)
  from test55_plot_histogramm_char [OF this, of NaN] a
  show "sigma_stab st = NaN"
    "mu_stab st = (if length (remove_nan df) div 5 \<le> 1 then Fin 0 else NaN)" by auto
next
  fix st assume a: "histogramm_plot_snapshot_analysis F df (Fin 0) ua = Inr st"
  then obtain res where "histogramm_get_robust_sigma_and_mu F (remove_nan df) True ua = Inr res"
    by (rule histogramm_plot_snapshot_Inr)
  from histogramm_plot_snapshot_char [OF this, of "Fin 0"] a
  show "\<And>r. sigma_stab st \<noteq> Fin r"
    "if length (remove_nan df) div 5 \<le> 1 then mu_stab st = Fin 0
     else (\<forall>r. mu_stab st \<noteq> Fin r)"
    by (auto simp add: fdiv_zero_not_Fin)
next
  fix st assume a: "histogramm_plot_snapshot_analysis F df NaN ua = Inr st"
  then obtain res where "histogramm_get_robust_sigma_and_mu F (remove_nan df) True ua = Inr res"
    by (rule histogramm_plot_snapshot_Inr)
  from histogramm_plot_snapshot_char [OF this, of NaN] a
  show "sigma_stab st = NaN"
    "mu_stab st = (if length (remove_nan df) div 5 \<le> 1 then Fin 0 else NaN)" by auto
next
  fix ref e assume "test55_plot_histogramm F df ref ua = Inl e"
  then show "test55_get_robust_sigma_and_mu F (remove_nan df) True ua = Inl e"
    by (rule test55_plot_histogramm_Inl)
next
  fix ref e assume "histogramm_plot_snapshot_analysis F df ref ua = Inl e"
  then show "histogramm_get_robust_sigma_and_mu F (remove_nan df) True ua = Inl e"
    by (rule histogramm_plot_snapshot_Inl)
qed

text \<open>
  The claim C1 as stated fails on \<open>test55.py\<close>: with a reference sigma of zero both
  indices are the finite number 0.
\<close>

theorem C1_test55_counterexample:
  "test55_plot_histogramm failing_fitter [Fin 1, Fin 2, Fin 3, Fin 4, Fin 5] (Fin 0) False
     = Inr (Some \<lparr>sigma_stab = Fin 0, mu_stab = Fin 0\<rparr>)"
  by (simp add: test55_plot_histogramm_def test55_get_robust_sigma_and_mu_def remove_nan_def
      Let_def)

lemma ex_snapshot_test55:
  "\<exists>st. test55_plot_histogramm failing_fitter
      [Fin 1, Fin 2, Fin 3, Fin 4, Fin 5, Fin 6, Fin 7, Fin 8, Fin 9, Fin 10] ref False
      = Inr (Some st)"
  by (simp add: test55_plot_histogramm_def test55_get_robust_sigma_and_mu_def remove_nan_def
      Let_def)

lemma ex_snapshot_histogramm:
  "\<exists>st. histogramm_plot_snapshot_analysis expon_fitter
      [Fin 1, Fin 2, Fin 3, Fin 4, Fin 5, Fin 6, Fin 7, Fin 8, Fin 9, Fin 10] ref False
      = Inr st"
  by (simp add: histogramm_plot_snapshot_analysis_def histogramm_get_robust_sigma_and_mu_def
      remove_nan_def expon_fitter_def Let_def)

theorem C1_reference_zero_or_nan_witness:
  "(\<exists>st. test55_plot_histogramm failing_fitter
        [Fin 1, Fin 2, Fin 3, Fin 4, Fin 5, Fin 6, Fin 7, Fin 8, Fin 9, Fin 10] (Fin 0) False
        = Inr (Some st) \<and> sigma_stab st = Fin 0 \<and> mu_stab st = Fin 0)
   \<and> (\<exists>st. test55_plot_histogramm failing_fitter
        [Fin 1, Fin 2, Fin 3, Fin 4, Fin 5, Fin 6, Fin 7, Fin 8, Fin 9, Fin 10] NaN False
        = Inr (Some st) \<and> sigma_stab st = NaN \<and> mu_stab st = NaN)
   \<and> (\<exists>st. histogramm_plot_snapshot_analysis expon_fitter
        [Fin 1, Fin 2, Fin 3, Fin 4, Fin 5, Fin 6, Fin 7, Fin 8, Fin 9, Fin 10] (Fin 0) False
        = Inr st \<and> sigma_stab st \<noteq> Fin 0 \<and> mu_stab st \<noteq> Fin 0)
   \<and> (\<exists>st. histogramm_plot_snapshot_analysis expon_fitter
        [Fin 1, Fin 2, Fin 3, Fin 4, Fin 5, Fin 6, Fin 7, Fin 8, Fin 9, Fin 10] NaN False
        = Inr st \<and> sigma_stab st = NaN \<and> mu_stab st = NaN)"
proof -
  let ?df = "[Fin 1, Fin 2, Fin 3, Fin 4, Fin 5, Fin 6, Fin 7, Fin 8, Fin 9, Fin 10]"
  have k: "\<not> length (remove_nan ?df) div 5 \<le> 1" by (simp add: remove_nan_def)
  note t = C1_reference_zero_or_nan [of failing_fitter ?df False]
  note h = C1_reference_zero_or_nan [of expon_fitter ?df False]
  obtain a where a: "test55_plot_histogramm failing_fitter ?df (Fin 0) False = Inr (Some a)"
    using ex_snapshot_test55 by blast
  obtain b where b: "test55_plot_histogramm failing_fitter ?df NaN False = Inr (Some b)"
    using ex_snapshot_test55 by blast
  obtain c where c: "histogramm_plot_snapshot_analysis expon_fitter ?df (Fin 0) False = Inr c"
    using ex_snapshot_histogramm by blast
  obtain d where d: "histogramm_plot_snapshot_analysis expon_fitter ?df NaN False = Inr d"
    using ex_snapshot_histogramm by blast
  from t a have 1: "sigma_stab a = Fin 0 \<and> mu_stab a = Fin 0" by blast
  from t b k have 2: "sigma_stab b = NaN \<and> mu_stab b = NaN" by (metis (full_types))
  from h c k have 3: "sigma_stab c \<noteq> Fin 0 \<and> mu_stab c \<noteq> Fin 0" by (metis (full_types))
  from h d k have 4: "sigma_stab d = NaN \<and> mu_stab d = NaN" by (metis (full_types))
  from a b c d 1 2 3 4 show ?thesis by blast
qed

section \<open>The timeline: order of the dates, the three lists, empty windows\<close>




lemma length_sort_values_date [simp]: "length (sort_values_date df) = length df"
  by (simp add: sort_values_date_def)


lemma py_range_bound: "0 < step \<Longrightarrow> i \<in> set (py_range ws n step) \<Longrightarrow> ws \<le> i \<and> i < n"
  by (simp add: set_py_range)



lemma py_range_2_4: "py_range 2 (Suc (Suc (Suc (Suc 0)))) 5 = [2]"
  by (simp add: py_range_def upt_rec)




text \<open>
  Claim C9 at a window without any value: \<open>vals[0:2]\<close> of the series below is
  \<open>[nan, nan]\<close>. \<open>histogramm.py\<close> skips the window and returns its (empty) lists;
  \<open>test55.py\<close> reads \<open>res['data_used']\<close> from a result that has \<open>sigma_equiv\<close> only,
  before it tests \<open>sigma_equiv\<close>, and ends with a \<open>KeyError\<close>.
\<close>

theorem C9_test55_empty_window:
  "test55_plot_timeline_analysis failing_fitter
      [(1, NaN), (2, NaN), (3, Fin 1), (4, Fin 2)] (Fin 1) 2 False = Inl KeyError
   \<and> histogramm_plot_timeline_analysis failing_fitter
      [(1, NaN), (2, NaN), (3, Fin 1), (4, Fin 2)] (Fin 1) 2 False
      = Inr \<lparr>sigma_stab_list = [], mu_stab_list = [], dates = []\<rparr>"
  by (simp add: test55_plot_timeline_analysis_def histogramm_plot_timeline_analysis_def
      sort_values_date_def py_range_2_4
      test55_timeline_body_def test55_get_robust_sigma_and_mu_def
      histogramm_timeline_body_def histogramm_get_robust_sigma_and_mu_def remove_nan_def
      py_slice_def nanquantile_def fsub_def Let_def)

text \<open>
  What claim C9 describes, as \<open>histogramm.py\<close> does it: the points are those of the
  indices \<open>window_size, window_size + 5, ...\<close> before the end of the sorted series, in
  that order, without those whose window has a NaN \<open>sigma_equiv\<close>; the point of an index
  has the date at the index, and the indices of the fast estimate on the \<open>window_size\<close>
  values just before the index.
\<close>

lemma histogramm_timeline_refines_spec:
  fixes df :: "(date \<times> npfloat) list"
  defines "index \<equiv> map fst (sort_values_date df)"
    and "vals \<equiv> map snd (sort_values_date df)"
  shows "\<exists>p. histogramm_plot_timeline_analysis F df ref ws ua =
           Inr \<lparr>sigma_stab_list = map (fst \<circ> snd) (List.map_filter p (spec_indices ws (length vals) 5)),
                mu_stab_list = map (snd \<circ> snd) (List.map_filter p (spec_indices ws (length vals) 5)),
                dates = map fst (List.map_filter p (spec_indices ws (length vals) 5))\<rparr>
         \<and> (\<forall>i \<in> set (spec_indices ws (length vals) 5).
              \<exists>res. histogramm_get_robust_sigma_and_mu F (spec_window vals ws i) False ua = Inr res
                \<and> p i = (if isnan (sigma_equiv res) then None
                         else Some (index ! i, fdiv (sigma_equiv res) ref,
                           (if length (spec_window vals ws i) div 5 \<le> 2 then Fin 0
                            else fdiv (np_std_ddof1 (map np_median (spec_subgroups 5
                                   (if ua then np_abs (spec_window vals ws i)
                                    else spec_window vals ws i)))) ref))))"
proof -
  let ?is = "py_range ws (length vals) 5"
  have is_eq: "?is = spec_indices ws (length vals) 5"
    by (rule py_range_eq_spec_indices) simp
  define p where "p i = (case histogramm_timeline_body F index vals ref ws ua i of
      Inr q \<Rightarrow> q | Inl e \<Rightarrow> None)" for i
  have body: "\<forall>i \<in> set ?is. histogramm_timeline_body F index vals ref ws ua i = Inr (p i)"
  proof
    fix i
    obtain q where "histogramm_timeline_body F index vals ref ws ua i = Inr q"
      using histogramm_timeline_body_total by blast
    then show "histogramm_timeline_body F index vals ref ws ua i = Inr (p i)"
      by (simp add: p_def)
  qed
  have "histogramm_timeline_loop F index vals ref ws ua ?is
        \<lparr>sigma_stab_list = [], mu_stab_list = [], dates = []\<rparr>
      = Inr \<lparr>sigma_stab_list = map (fst \<circ> snd) (List.map_filter p ?is),
             mu_stab_list = map (snd \<circ> snd) (List.map_filter p ?is),
             dates = map fst (List.map_filter p ?is)\<rparr>"
    unfolding histogramm_timeline_loop_char [OF body] by simp
  then have 1: "histogramm_plot_timeline_analysis F df ref ws ua
      = Inr \<lparr>sigma_stab_list = map (fst \<circ> snd) (List.map_filter p ?is),
             mu_stab_list = map (snd \<circ> snd) (List.map_filter p ?is),
             dates = map fst (List.map_filter p ?is)\<rparr>"
    unfolding histogramm_plot_timeline_analysis_def Let_def index_def vals_def .
  have 2: "\<exists>res. histogramm_get_robust_sigma_and_mu F (spec_window vals ws i) False ua = Inr res
                \<and> p i = (if isnan (sigma_equiv res) then None
                         else Some (index ! i, fdiv (sigma_equiv res) ref,
                           (if length (spec_window vals ws i) div 5 \<le> 2 then Fin 0
                            else fdiv (np_std_ddof1 (map np_median (spec_subgroups 5
                                   (if ua then np_abs (spec_window vals ws i)
                                    else spec_window vals ws i)))) ref)))"
    if "i \<in> set ?is" for i
  proof -
    from that have "ws \<le> i" "i \<le> length vals"
      using py_range_bound [of 5 i ws "length vals"] by auto
    then have w: "py_slice (i - ws) i vals = spec_window vals ws i"
      by (rule py_slice_eq_spec_window)
    obtain res where r: "histogramm_get_robust_sigma_and_mu F (py_slice (i - ws) i vals) False ua = Inr res"
      using histogramm_fast_total by blast
    from histogramm_timeline_body_char [OF r, of index ref] body that
    have "p i = (if isnan (sigma_equiv res) then None
                         else Some (index ! i, fdiv (sigma_equiv res) ref,
                           (if length (py_slice (i - ws) i vals) div 5 \<le> 2 then Fin 0
                            else fdiv (np_std_ddof1 (map np_median (spec_subgroups 5
                                   (if ua then np_abs (py_slice (i - ws) i vals)
                                    else py_slice (i - ws) i vals)))) ref)))"
      by (auto split: if_splits)
    with r show ?thesis unfolding w by blast
  qed
  from 1 2 show ?thesis unfolding is_eq by blast
qed

text \<open>
  \<open>test55.py\<close> does the same (with its guard on the reference) as long as every window
  has a value that is not NaN.
\<close>

lemma test55_timeline_refines_spec:
  fixes df :: "(date \<times> npfloat) list"
  defines "index \<equiv> map fst (sort_values_date df)"
    and "vals \<equiv> map snd (sort_values_date df)"
  assumes ne: "\<forall>i \<in> set (spec_indices ws (length vals) 5). remove_nan (spec_window vals ws i) \<noteq> []"
  shows "\<exists>p. test55_plot_timeline_analysis F df ref ws ua =
           Inr \<lparr>sigma_stab_list = map (fst \<circ> snd) (List.map_filter p (spec_indices ws (length vals) 5)),
                mu_stab_list = map (snd \<circ> snd) (List.map_filter p (spec_indices ws (length vals) 5)),
                dates = map fst (List.map_filter p (spec_indices ws (length vals) 5))\<rparr>
         \<and> (\<forall>i \<in> set (spec_indices ws (length vals) 5).
              \<exists>res. test55_get_robust_sigma_and_mu F (spec_window vals ws i) False ua = Inr res
                \<and> p i = (if isnan (sigma_equiv res) then None
                         else Some (index ! i,
                           (if truthy ref then fdiv (sigma_equiv res) ref else Fin 0),
                           (if length (remove_nan (spec_window vals ws i)) div 5 \<le> 2 then Fin 0
                            else if truthy ref
                              then fdiv (np_std_ddof1 (map np_median (spec_subgroups 5
                                   (remove_nan (if ua then np_abs (spec_window vals ws i)
                                    else spec_window vals ws i))))) ref
                              else Fin 0))))"
proof -
  let ?is = "py_range ws (length vals) 5"
  have is_eq: "?is = spec_indices ws (length vals) 5"
    by (rule py_range_eq_spec_indices) simp
  define p where "p i = (case test55_timeline_body F index vals ref ws ua i of
      Inr q \<Rightarrow> q | Inl e \<Rightarrow> None)" for i
  have 2: "test55_timeline_body F index vals ref ws ua i = Inr (p i)
         \<and> (\<exists>res. test55_get_robust_sigma_and_mu F (spec_window vals ws i) False ua = Inr res
                \<and> p i = (if isnan (sigma_equiv res) then None
                         else Some (index ! i,
                           (if truthy ref then fdiv (sigma_equiv res) ref else Fin 0),
                           (if length (remove_nan (spec_window vals ws i)) div 5 \<le> 2 then Fin 0
                            else if truthy ref
                              then fdiv (np_std_ddof1 (map np_median (spec_subgroups 5
                                   (remove_nan (if ua then np_abs (spec_window vals ws i)
                                    else spec_window vals ws i))))) ref
                              else Fin 0))))"
    if "i \<in> set ?is" for i
  proof -
    from that have "ws \<le> i" "i \<le> length vals"
      using py_range_bound [of 5 i ws "length vals"] by auto
    then have w: "py_slice (i - ws) i vals = spec_window vals ws i"
      by (rule py_slice_eq_spec_window)
    from that ne have n: "remove_nan (spec_window vals ws i) \<noteq> []"
      unfolding is_eq by blast
    obtain res where r: "test55_get_robust_sigma_and_mu F (spec_window vals ws i) False ua = Inr res"
      using test55_fast_total by blast
    from test55_timeline_body_char [of F i ws vals ua res index ref] r n
    show ?thesis unfolding w by (auto simp add: p_def)
  qed
  then have body: "\<forall>i \<in> set ?is. test55_timeline_body F index vals ref ws ua i = Inr (p i)"
    by blast
  have "test55_timeline_loop F index vals ref ws ua ?is
        \<lparr>sigma_stab_list = [], mu_stab_list = [], dates = []\<rparr>
      = Inr \<lparr>sigma_stab_list = map (fst \<circ> snd) (List.map_filter p ?is),
             mu_stab_list = map (snd \<circ> snd) (List.map_filter p ?is),
             dates = map fst (List.map_filter p ?is)\<rparr>"
    unfolding test55_timeline_loop_char [OF body] by simp
  then have 1: "test55_plot_timeline_analysis F df ref ws ua
      = Inr \<lparr>sigma_stab_list = map (fst \<circ> snd) (List.map_filter p ?is),
             mu_stab_list = map (snd \<circ> snd) (List.map_filter p ?is),
             dates = map fst (List.map_filter p ?is)\<rparr>"
    unfolding test55_plot_timeline_analysis_def Let_def index_def vals_def .
  from 1 2 show ?thesis unfolding is_eq by blast
qed

text \<open>And it raises as soon as one window has no such value.\<close>

lemma test55_timeline_raises:
  fixes df :: "(date \<times> npfloat) list"
  defines "vals \<equiv> map snd (sort_values_date df)"
  assumes "i \<in> set (spec_indices ws (length vals) 5)"
    and "remove_nan (spec_window vals ws i) = []"
  shows "\<exists>e. test55_plot_timeline_analysis F df ref ws ua = Inl e"
proof -
  let ?index = "map fst (sort_values_date df)"
  let ?is = "py_range ws (length vals) 5"
  have is_eq: "?is = spec_indices ws (length vals) 5"
    by (rule py_range_eq_spec_indices) simp
  from assms(2) have i: "i \<in> set ?is" unfolding is_eq .
  then have "ws \<le> i" "i \<le> length vals"
    using py_range_bound [of 5 i ws "length vals"] by auto
  then have w: "py_slice (i - ws) i vals = spec_window vals ws i"
    by (rule py_slice_eq_spec_window)
  obtain res where r: "test55_get_robust_sigma_and_mu F (py_slice (i - ws) i vals) False ua = Inr res"
    using test55_fast_total by blast
  have "test55_timeline_body F ?index vals ref ws ua i = Inl KeyError"
    using test55_timeline_body_char [OF r, of ?index ref] assms(3) by (simp add: w)
  from test55_timeline_loop_raise [OF i this]
  show ?thesis
    unfolding test55_plot_timeline_analysis_def Let_def vals_def by blast
qed

section \<open>Finite samples: the numpy functions on real numbers\<close>

lemma lerp_Fin: "lerp (Fin a) (Fin b) t = Fin (a + (b - a) * t)"
  by (simp add: lerp_def fsub_def algebra_simps)

lemma insort_key_map_Fin:
  "insort_key sortkey (Fin a) (map Fin xs) = map Fin (insort a xs)"
  by (induction xs) simp_all

lemma np_sort_map_Fin: "np_sort (map Fin xs) = map Fin (sort xs)"
  unfolding np_sort_def by (induction xs) (simp_all add: insort_key_map_Fin)

lemma remove_nan_map_Fin [simp]: "remove_nan (map Fin xs) = map Fin xs"
  by (induction xs) (simp_all add: remove_nan_def)

lemma np_abs_map_Fin: "np_abs (map Fin xs) = map Fin (map abs xs)"
  by (simp add: np_abs_def)

lemma np_quantile_map_Fin:
  assumes "xs \<noteq> []" "0 \<le> q"
  shows "np_quantile (map Fin xs) q = Fin (real_quantile xs q)"
proof -
  let ?ys = "sort xs"
  let ?n = "length xs"
  let ?h = "q * (real ?n - 1)"
  have n: "0 < ?n" using assms by simp
  from n have "1 \<le> ?n" by linarith
  then have "1 \<le> real ?n" by linarith
  then have h0: "0 \<le> ?h" using assms(2) by simp
  show ?thesis
  proof (cases "real ?n - 1 \<le> ?h")
    case True
    have "sort xs \<noteq> []" using n by (metis length_sort length_greater_0_conv)
    then have "last (map Fin ?ys) = Fin (last ?ys)"
      by (rule last_map)
    with True show ?thesis
      by (simp add: np_quantile_def real_quantile_def np_sort_map_Fin lerp_Fin Let_def)
  next
    case False
    then have "?h < real ?n - 1" by simp
    then have "\<lfloor>?h\<rfloor> < int ?n - 1" by (simp add: floor_less_iff)
    moreover have "0 \<le> \<lfloor>?h\<rfloor>" using h0 by simp
    ultimately have lo: "nat \<lfloor>?h\<rfloor> + 1 < ?n" by linarith
    with False show ?thesis
      by (simp add: np_quantile_def real_quantile_def np_sort_map_Fin lerp_Fin Let_def)
  qed
qed

lemma nanquantile_map_Fin:
  "xs \<noteq> [] \<Longrightarrow> 0 \<le> q \<Longrightarrow> nanquantile (map Fin xs) q = Fin (real_quantile xs q)"
  by (simp add: nanquantile_def np_quantile_map_Fin)

lemma np_median_map_Fin:
  assumes "xs \<noteq> []"
  shows "np_median (map Fin xs) = Fin (real_median xs)"
proof -
  have n: "0 < length xs" using assms by simp
  have nonan: "\<not> (\<exists>x \<in> set (map Fin xs). isnan x)" by auto
  have ne: "sort xs \<noteq> []" using n by (metis length_sort length_greater_0_conv)
  show ?thesis
  proof (cases "odd (length xs)")
    case True
    have "length xs div 2 < length xs" using n by simp
    with True nonan n ne show ?thesis
      by (simp add: np_median_def real_median_def np_sort_map_Fin Let_def)
  next
    case False
    then have "2 \<le> length xs" using n by presburger
    then have "length xs div 2 < length xs" "length xs div 2 - 1 < length xs" by auto
    with False nonan n ne show ?thesis
      by (simp add: np_median_def real_median_def np_sort_map_Fin Let_def)
  qed
qed

lemma nanmedian_map_Fin: "xs \<noteq> [] \<Longrightarrow> nanmedian (map Fin xs) = Fin (real_median xs)"
  by (simp add: nanmedian_def np_median_map_Fin)

section \<open>Order of the empirical quantiles\<close>






section \<open>The ordering invariant of an estimate\<close>




lemma is_inf_fabs [simp]: "is_inf (fabs x) = is_inf x"
  by (cases x) simp_all












section \<open>The absolute-value transform\<close>

lemma test55_fast_finite:
  assumes "remove_nan (if ua then np_abs data else data) = map Fin rs" "rs \<noteq> []"
  shows "test55_get_robust_sigma_and_mu F data False ua =
      Inr \<lparr>sigma_equiv = fdiv (fsub (Fin (real_quantile rs 0.99865)) (Fin (real_quantile rs 0.00135))) (Fin 6),
           median = Some (Fin (real_median rs)),
           lsl = Some (Fin (real_quantile rs 0.00135)), usl = Some (Fin (real_quantile rs 0.99865)),
           dist_obj = Some None, dist_name = Some ''empirical'', data_used = Some (map Fin rs)\<rparr>"
  using assms(2) unfolding test55_get_robust_sigma_and_mu_def Let_def assms(1)
  by (simp add: nanquantile_map_Fin nanmedian_map_Fin)

lemma histogramm_fast_finite:
  assumes "remove_nan (if ua then np_abs data else data) = map Fin rs" "rs \<noteq> []"
  shows "histogramm_get_robust_sigma_and_mu F data False ua =
      Inr \<lparr>sigma_equiv = fdiv (fsub (Fin (real_quantile rs 0.99865)) (Fin (real_quantile rs 0.00135))) (Fin 6),
           median = Some (Fin (real_median rs)),
           lsl = Some (Fin (real_quantile rs 0.00135)), usl = Some (Fin (real_quantile rs 0.99865)),
           dist_obj = Some None, dist_name = Some ''empirical'',
           data_used = Some (if ua then np_abs data else data)\<rparr>"
proof -
  let ?d = "if ua then np_abs data else data"
  have dne: "?d \<noteq> []" using assms by (cases ua) auto
  have nq: "nanquantile ?d q = Fin (real_quantile rs q)" if "0 \<le> q" for q
    using nanquantile_map_Fin [OF assms(2) that] nanquantile_remove_nan [of ?d q]
    by (simp add: assms(1))
  have nm: "nanmedian ?d = Fin (real_median rs)"
    using nanmedian_map_Fin [OF assms(2)] nanmedian_remove_nan [of ?d] by (simp add: assms(1))
  show ?thesis
    using dne unfolding histogramm_get_robust_sigma_and_mu_def Let_def
    by (simp add: nq nm)
qed





section \<open>The dispersion of the subgroup medians\<close>

lemma foldl_fadd_Fin: "foldl fadd (Fin a) (map Fin xs) = Fin (a + sum_list xs)"
  by (induction xs arbitrary: a) (simp_all add: add.assoc)

lemma fsum_map_Fin: "fsum (map Fin xs) = Fin (sum_list xs)"
  by (simp add: fsum_def foldl_fadd_Fin)

lemma np_std_ddof1_map_Fin:
  assumes "2 \<le> length xs"
  shows "np_std_ddof1 (map Fin xs) = Fin (bessel_sd xs)"
proof -
  let ?n = "length xs"
  let ?mu = "real_mean xs"
  have n0: "real ?n \<noteq> 0" using assms by auto
  have n1: "real (?n - Suc 0) = real ?n - 1" "real ?n - 1 \<noteq> 0" using assms by auto
  have mean: "fdiv (fsum (map Fin xs)) (Fin (real (length (map Fin xs)))) = Fin ?mu"
    using n0 by (simp add: fsum_map_Fin real_mean_def)
  have sq: "map (\<lambda>x. fmul (fsub x (Fin ?mu)) (fsub x (Fin ?mu))) (map Fin xs)
      = map Fin (map (\<lambda>x. (x - ?mu) ^ 2) xs)"
    by (simp add: fsub_def power2_eq_square)
  have nonneg: "0 \<le> sum_list (map (\<lambda>x. (x - ?mu) ^ 2) xs) / (real ?n - 1)"
    using assms by (intro divide_nonneg_nonneg sum_list_nonneg) auto
  have "np_std_ddof1 (map Fin xs)
      = fsqrt (fdiv (fsum (map Fin (map (\<lambda>x. (x - ?mu) ^ 2) xs))) (Fin (real ?n - 1)))"
    unfolding np_std_ddof1_def Let_def mean sq by (simp add: n1(1))
  also have "\<dots> = Fin (sqrt (sum_list (map (\<lambda>x. (x - ?mu) ^ 2) xs) / (real ?n - 1)))"
    unfolding fsum_map_Fin using n1(2) nonneg by (simp add: not_less)
  finally show ?thesis by (simp add: bessel_sd_def)
qed

lemma spec_subgroups_map:
  "spec_subgroups g (map f xs) = map (map f) (spec_subgroups g xs)"
  by (simp add: spec_subgroups_def take_map drop_map)

lemma length_spec_subgroups [simp]: "length (spec_subgroups g xs) = length xs div g"
  by (simp add: spec_subgroups_def)

lemma spec_subgroup_length:
  assumes "c \<in> set (spec_subgroups g xs)"
  shows "length c = g"
proof -
  from assms obtain j where j: "j < length xs div g" and c: "c = take g (drop (j * g) xs)"
    by (auto simp add: spec_subgroups_def)
  from j have "Suc j \<le> length xs div g" by simp
  then have "Suc j * g \<le> length xs div g * g" by (rule mult_le_mono1)
  also have "\<dots> \<le> length xs" by (rule div_times_less_eq_dividend)
  finally have "g \<le> length xs - j * g" by simp
  then show ?thesis by (simp add: c)
qed

lemma medians_map_Fin:
  assumes "0 < g"
  shows "map np_median (spec_subgroups g (map Fin rs))
      = map Fin (map real_median (spec_subgroups g rs))"
proof -
  have "np_median (map Fin c) = Fin (real_median c)" if "c \<in> set (spec_subgroups g rs)" for c
  proof (rule np_median_map_Fin)
    from spec_subgroup_length [OF that] assms show "c \<noteq> []" by auto
  qed
  then show ?thesis by (simp add: spec_subgroups_map)
qed

lemma mu_stab_formula:
  assumes "2 \<le> length rs div 5" "r \<noteq> 0"
  shows "fdiv (np_std_ddof1 (map np_median (spec_subgroups 5 (map Fin rs)))) (Fin r)
      = Fin (bessel_sd (map real_median (spec_subgroups 5 rs)) / r)"
proof -
  have "2 \<le> length (map real_median (spec_subgroups 5 rs))" using assms(1) by simp
  from np_std_ddof1_map_Fin [OF this] assms(2) show ?thesis
    by (simp add: medians_map_Fin)
qed

lemma truthy_Fin [simp]: "truthy (Fin r) \<longleftrightarrow> r \<noteq> 0"
  by (simp add: truthy_def)

text \<open>
  Claim C7. Let the sample used consist of real values \<open>rs\<close>, and the reference sigma
  be a real number \<open>r\<close> other than zero. With more than one complete subgroup of five in
  a snapshot, and more than two in a pass of the timeline loop, \<open>mu_stab\<close> is the
  Bessel-corrected standard deviation of the medians of the consecutive chunks of five
  values of \<open>rs\<close>, in the order of \<open>rs\<close> and without the remainder, divided by \<open>r\<close>.
\<close>

theorem C7_mu_stab_formula:
  assumes "r \<noteq> 0"
  shows
    "(\<forall>st rs. test55_plot_histogramm F df (Fin r) ua = Inr (Some st)
         \<and> remove_nan (if ua then np_abs df else df) = map Fin rs \<and> 1 < length rs div 5
        \<longrightarrow> mu_stab st = Fin (bessel_sd (map real_median (spec_subgroups 5 rs)) / r))
     \<and> (\<forall>st rs. histogramm_plot_snapshot_analysis F df (Fin r) ua = Inr st
         \<and> (if ua then np_abs (remove_nan df) else remove_nan df) = map Fin rs
         \<and> 1 < length rs div 5
        \<longrightarrow> mu_stab st = Fin (bessel_sd (map real_median (spec_subgroups 5 rs)) / r))
     \<and> (\<forall>d s m rs. test55_timeline_body F index vals (Fin r) ws ua i = Inr (Some (d, s, m))
         \<and> remove_nan (if ua then np_abs (py_slice (i - ws) i vals)
                        else py_slice (i - ws) i vals) = map Fin rs
         \<and> 2 < length rs div 5
        \<longrightarrow> m = Fin (bessel_sd (map real_median (spec_subgroups 5 rs)) / r))
     \<and> (\<forall>d s m rs. histogramm_timeline_body F index vals (Fin r) ws ua i = Inr (Some (d, s, m))
         \<and> (if ua then np_abs (py_slice (i - ws) i vals) else py_slice (i - ws) i vals)
             = map Fin rs
         \<and> 2 < length rs div 5
        \<longrightarrow> m = Fin (bessel_sd (map real_median (spec_subgroups 5 rs)) / r))"
proof (intro conjI allI impI; elim conjE)
  fix st rs
  assume a: "test55_plot_histogramm F df (Fin r) ua = Inr (Some st)"
    and rs: "remove_nan (if ua then np_abs df else df) = map Fin rs"
    and k: "1 < length rs div 5"
  from a obtain res where 5: "5 \<le> length (remove_nan df)"
    and res: "test55_get_robust_sigma_and_mu F (remove_nan df) True ua = Inr res"
    by (rule test55_plot_histogramm_Some)
  have len: "length (remove_nan df) = length rs"
    using length_remove_nan_abs [of ua df] by (simp add: rs)
  from k have k2: "2 \<le> length rs div 5" by simp
  from test55_plot_histogramm_char [OF 5 res, of "Fin r"] a
  have "mu_stab st = fdiv (np_std_ddof1 (map np_median (spec_subgroups 5 (map Fin rs)))) (Fin r)"
    using k assms by (simp add: len rs)
  then show "mu_stab st = Fin (bessel_sd (map real_median (spec_subgroups 5 rs)) / r)"
    by (simp only: mu_stab_formula [OF k2 assms])
next
  fix st rs
  assume a: "histogramm_plot_snapshot_analysis F df (Fin r) ua = Inr st"
    and rs: "(if ua then np_abs (remove_nan df) else remove_nan df) = map Fin rs"
    and k: "1 < length rs div 5"
  from a obtain res where res: "histogramm_get_robust_sigma_and_mu F (remove_nan df) True ua = Inr res"
    by (rule histogramm_plot_snapshot_Inr)
  have "length (if ua then np_abs (remove_nan df) else remove_nan df) = length (remove_nan df)"
    by simp
  then have len: "length (remove_nan df) = length rs" by (simp add: rs)
  from k have k2: "2 \<le> length rs div 5" by simp
  from histogramm_plot_snapshot_char [OF res, of "Fin r"] a
  have "mu_stab st = fdiv (np_std_ddof1 (map np_median (spec_subgroups 5 (map Fin rs)))) (Fin r)"
    using k by (simp add: len rs)
  then show "mu_stab st = Fin (bessel_sd (map real_median (spec_subgroups 5 rs)) / r)"
    by (simp only: mu_stab_formula [OF k2 assms])
next
  fix d s m rs
  let ?w = "py_slice (i - ws) i vals"
  assume a: "test55_timeline_body F index vals (Fin r) ws ua i = Inr (Some (d, s, m))"
    and rs: "remove_nan (if ua then np_abs ?w else ?w) = map Fin rs"
    and k: "2 < length rs div 5"
  obtain res where res: "test55_get_robust_sigma_and_mu F ?w False ua = Inr res"
    using test55_fast_total by blast
  have len: "length (remove_nan ?w) = length rs"
    using length_remove_nan_abs [of ua ?w] by (simp add: rs)
  from k have k2: "2 \<le> length rs div 5" by simp
  from test55_timeline_body_char [OF res, of index "Fin r"] a
  have "m = fdiv (np_std_ddof1 (map np_median (spec_subgroups 5 (map Fin rs)))) (Fin r)"
    using k assms by (simp add: len rs split: if_splits)
  then show "m = Fin (bessel_sd (map real_median (spec_subgroups 5 rs)) / r)"
    by (simp only: mu_stab_formula [OF k2 assms])
next
  fix d s m rs
  let ?w = "py_slice (i - ws) i vals"
  assume a: "histogramm_timeline_body F index vals (Fin r) ws ua i = Inr (Some (d, s, m))"
    and rs: "(if ua then np_abs ?w else ?w) = map Fin rs"
    and k: "2 < length rs div 5"
  obtain res where res: "histogramm_get_robust_sigma_and_mu F ?w False ua = Inr res"
    using histogramm_fast_total by blast
  have "length (if ua then np_abs ?w else ?w) = length ?w" by simp
  then have len: "length ?w = length rs" by (simp add: rs)
  from k have k2: "2 \<le> length rs div 5" by simp
  from histogramm_timeline_body_char [OF res, of index "Fin r"] a
  have "m = fdiv (np_std_ddof1 (map np_median (spec_subgroups 5 (map Fin rs)))) (Fin r)"
    using k by (simp add: len rs split: if_splits)
  then show "m = Fin (bessel_sd (map real_median (spec_subgroups 5 rs)) / r)"
    by (simp only: mu_stab_formula [OF k2 assms])
qed

lemma test55_timeline_body_finite:
  assumes "remove_nan (if ua then np_abs (py_slice (i - ws) i vals) else py_slice (i - ws) i vals)
      = map Fin rs" "rs \<noteq> []"
  shows "\<exists>d s m. test55_timeline_body F index vals ref ws ua i = Inr (Some (d, s, m))"
proof -
  let ?w = "py_slice (i - ws) i vals"
  note res = test55_fast_finite [OF assms, of F]
  have "length (remove_nan ?w) = length rs"
    using length_remove_nan_abs [of ua ?w] by (simp add: assms(1))
  with assms(2) have "remove_nan ?w \<noteq> []" by auto
  then show ?thesis
    by (simp add: test55_timeline_body_char [OF res] fsub_def)
qed

lemma histogramm_timeline_body_finite:
  assumes "remove_nan (if ua then np_abs (py_slice (i - ws) i vals) else py_slice (i - ws) i vals)
      = map Fin rs" "rs \<noteq> []"
  shows "\<exists>d s m. histogramm_timeline_body F index vals ref ws ua i = Inr (Some (d, s, m))"
proof -
  note res = histogramm_fast_finite [OF assms, of F]
  show ?thesis
    by (simp add: histogramm_timeline_body_char [OF res] fsub_def)
qed

lemma ex_snapshot_test55_10:
  "\<exists>st. test55_plot_histogramm failing_fitter
      [Fin 2, Fin 9, Fin 4, Fin 1, Fin 7, Fin 3, Fin 10, Fin 5, Fin 8, Fin 6] ref False
      = Inr (Some st)"
  by (simp add: test55_plot_histogramm_def test55_get_robust_sigma_and_mu_def remove_nan_def
      Let_def)

lemma ex_snapshot_histogramm_10:
  "\<exists>st. histogramm_plot_snapshot_analysis expon_fitter
      [Fin 2, Fin 9, Fin 4, Fin 1, Fin 7, Fin 3, Fin 10, Fin 5, Fin 8, Fin 6] ref False
      = Inr st"
  by (simp add: histogramm_plot_snapshot_analysis_def histogramm_get_robust_sigma_and_mu_def
      remove_nan_def expon_fitter_def Let_def)

lemma medians_example_10:
  "map real_median (spec_subgroups 5 [2, 9, 4, 1, 7, 3, 10, 5, 8, 6]) = [4, 6]"
  by (simp add: spec_subgroups_def real_median_def upt_rec)

lemma medians_example_15:
  "map real_median (spec_subgroups 5 [1, 2, 3, 4, 5, 6, 7, 8, 9, 10, 11, 12, 13, 14, 15])
     = [3, 8, 13]"
  by (simp add: spec_subgroups_def real_median_def upt_rec)

lemma window_example:
  "py_slice (15 - 15) 15 [Fin 1, Fin 2, Fin 3, Fin 4, Fin 5, Fin 6, Fin 7, Fin 8, Fin 9, Fin 10,
      Fin 11, Fin 12, Fin 13, Fin 14, Fin 15, Fin 16]
   = map Fin [1, 2, 3, 4, 5, 6, 7, 8, 9, 10, 11, 12, 13, 14, 15]"
  by (simp add: py_slice_def)

theorem C7_mu_stab_formula_witness:
  "(\<exists>st. test55_plot_histogramm failing_fitter
        [Fin 2, Fin 9, Fin 4, Fin 1, Fin 7, Fin 3, Fin 10, Fin 5, Fin 8, Fin 6] (Fin 2) False
        = Inr (Some st) \<and> mu_stab st = Fin (bessel_sd [4, 6] / 2))
   \<and> (\<exists>st. histogramm_plot_snapshot_analysis expon_fitter
        [Fin 2, Fin 9, Fin 4, Fin 1, Fin 7, Fin 3, Fin 10, Fin 5, Fin 8, Fin 6] (Fin 2) False
        = Inr st \<and> mu_stab st = Fin (bessel_sd [4, 6] / 2))
   \<and> (\<exists>d s. test55_timeline_body failing_fitter
        [1, 2, 3, 4, 5, 6, 7, 8, 9, 10, 11, 12, 13, 14, 15, 16]
        [Fin 1, Fin 2, Fin 3, Fin 4, Fin 5, Fin 6, Fin 7, Fin 8, Fin 9, Fin 10,
         Fin 11, Fin 12, Fin 13, Fin 14, Fin 15, Fin 16] (Fin 2) 15 False 15
        = Inr (Some (d, s, Fin (bessel_sd [3, 8, 13] / 2))))
   \<and> (\<exists>d s. histogramm_timeline_body failing_fitter
        [1, 2, 3, 4, 5, 6, 7, 8, 9, 10, 11, 12, 13, 14, 15, 16]
        [Fin 1, Fin 2, Fin 3, Fin 4, Fin 5, Fin 6, Fin 7, Fin 8, Fin 9, Fin 10,
         Fin 11, Fin 12, Fin 13, Fin 14, Fin 15, Fin 16] (Fin 2) 15 False 15
        = Inr (Some (d, s, Fin (bessel_sd [3, 8, 13] / 2))))"
proof -
  let ?df = "[Fin 2, Fin 9, Fin 4, Fin 1, Fin 7, Fin 3, Fin 10, Fin 5, Fin 8, Fin 6]"
  let ?rs = "[2, 9, 4, 1, 7, 3, 10, 5, 8, 6] :: real list"
  let ?index = "[1, 2, 3, 4, 5, 6, 7, 8, 9, 10, 11, 12, 13, 14, 15, 16] :: date list"
  let ?vals = "[Fin 1, Fin 2, Fin 3, Fin 4, Fin 5, Fin 6, Fin 7, Fin 8, Fin 9, Fin 10,
         Fin 11, Fin 12, Fin 13, Fin 14, Fin 15, Fin 16]"
  let ?ws = "[1, 2, 3, 4, 5, 6, 7, 8, 9, 10, 11, 12, 13, 14, 15] :: real list"
  have r: "(2::real) \<noteq> 0" by simp
  note c7a = C7_mu_stab_formula [OF r, of failing_fitter ?df False ?index ?vals 15 15]
  note c7b = C7_mu_stab_formula [OF r, of expon_fitter ?df False ?index ?vals 15 15]
  have df: "remove_nan (if False then np_abs ?df else ?df) = map Fin ?rs"
    "(if False then np_abs (remove_nan ?df) else remove_nan ?df) = map Fin ?rs"
    by (simp_all add: remove_nan_def)
  have k10: "1 < length ?rs div 5" by simp
  have w: "remove_nan (if False then np_abs (py_slice (15 - 15) 15 ?vals)
        else py_slice (15 - 15) 15 ?vals) = map Fin ?ws"
    "(if False then np_abs (py_slice (15 - 15) 15 ?vals) else py_slice (15 - 15) 15 ?vals)
        = map Fin ?ws"
    unfolding window_example by (simp_all del: list.map)
  have k15: "2 < length ?ws div 5" by simp
  obtain st1 where st1: "test55_plot_histogramm failing_fitter ?df (Fin 2) False = Inr (Some st1)"
    using ex_snapshot_test55_10 by blast
  obtain st2 where st2: "histogramm_plot_snapshot_analysis expon_fitter ?df (Fin 2) False = Inr st2"
    using ex_snapshot_histogramm_10 by blast
  obtain d1 s1 m1 where b1: "test55_timeline_body failing_fitter ?index ?vals (Fin 2) 15 False 15
      = Inr (Some (d1, s1, m1))"
    using test55_timeline_body_finite [OF w(1)] by blast
  obtain d2 s2 m2 where b2: "histogramm_timeline_body failing_fitter ?index ?vals (Fin 2) 15 False 15
      = Inr (Some (d2, s2, m2))"
    using histogramm_timeline_body_finite [OF w(1)] by blast
  from c7a st1 df(1) k10 have 1: "mu_stab st1 = Fin (bessel_sd [4, 6] / 2)"
    unfolding medians_example_10 [symmetric] by blast
  from c7b st2 df(2) k10 have 2: "mu_stab st2 = Fin (bessel_sd [4, 6] / 2)"
    unfolding medians_example_10 [symmetric] by blast
  from c7a b1 w(1) k15 have 3: "m1 = Fin (bessel_sd [3, 8, 13] / 2)"
    unfolding medians_example_15 [symmetric] by blast
  from c7a b2 w(2) k15 have 4: "m2 = Fin (bessel_sd [3, 8, 13] / 2)"
    unfolding medians_example_15 [symmetric] by blast
  from st1 st2 b1 b2 1 2 3 4 show ?thesis by blast
qed

end
